theory Spec2Isabelle
  imports Main
begin

section \<open>JavaScript values and objects\<close>

text \<open>
  The values that travel between the request, the validation schemas and the database
  driver.  Numbers are the integers (a JSON number with a fractional part is refused by
  every \<open>.int()\<close> schema and is not represented) and \<open>NaN\<close>, which
  \<open>Number.parseInt\<close> returns on text without digits.  \<open>JDate t\<close> is a \<open>Date\<close>
  object for the instant \<open>t\<close>, in milliseconds since the epoch, which is how the driver
  hands a \<open>TIMESTAMP WITH TIME ZONE\<close> column to the handler.  Strings are lists of
  characters.
\<close>

datatype jsval =
    JUndefined
  | JNull
  | JBool bool
  | JNum int
  | JNaN
  | JStr string
  | JArr "string list"
  | JDate int

text \<open>A plain object: its own properties in insertion order, no key twice.\<close>

type_synonym js_object = "(string \<times> jsval) list"

definition get :: "js_object \<Rightarrow> string \<Rightarrow> jsval" where
  "get obj key = (case map_of obj key of None \<Rightarrow> JUndefined | Some v \<Rightarrow> v)"

text \<open>\<open>obj[key] = v\<close>: an existing property keeps its place, a new one goes last.\<close>

fun obj_set :: "(string \<times> 'a) list \<Rightarrow> string \<Rightarrow> 'a \<Rightarrow> (string \<times> 'a) list" where
  "obj_set [] key v = [(key, v)]"
| "obj_set ((k, w) # rest) key v =
     (if k = key then (k, v) # rest else (k, w) # obj_set rest key v)"

text \<open>Truthiness, as tested by \<open>if (x)\<close>, \<open>x && y\<close>, \<open>x || y\<close> and \<open>!x\<close>.\<close>

fun truthy :: "jsval \<Rightarrow> bool" where
  "truthy JUndefined = False"
| "truthy JNull = False"
| "truthy (JBool b) = b"
| "truthy (JNum n) = (n \<noteq> 0)"
| "truthy JNaN = False"
| "truthy (JStr s) = (s \<noteq> [])"
| "truthy (JArr xs) = True"
| "truthy (JDate t) = True"

definition js_or :: "jsval \<Rightarrow> jsval \<Rightarrow> jsval" where
  "js_or a b = (if truthy a then a else b)"

text \<open>
  \<open>a !== b\<close> between a value read from a database row and a value of the validated
  payload.  Primitives are compared by value, \<open>NaN\<close> differs from everything, and two
  objects (arrays, dates) are compared by reference: the row's array was built by the
  driver and the payload's by the parser, so they are never the same object.
\<close>

fun strict_neq :: "jsval \<Rightarrow> jsval \<Rightarrow> bool" where
  "strict_neq (JArr xs) (JArr ys) = True"
| "strict_neq (JDate s) (JDate t) = True"
| "strict_neq JNaN b = True"
| "strict_neq a JNaN = True"
| "strict_neq a b = (a \<noteq> b)"

section \<open>The store\<close>

text \<open>
  A row of \<open>buyers\<close> maps a column name to the value the driver returns for it
  (\<open>JUndefined\<close> for a name that is no column: \<open>row[name]\<close> on a missing property).
  Lead ids are UUIDs in the source; the model numbers them, since only their
  distinctness matters.
\<close>

type_synonym db_row = "string \<Rightarrow> jsval"

text \<open>
  The \<open>diff\<close> column of \<open>buyer_history\<close>, before \<open>JSON.stringify\<close>:
  \<open>{action: "created", data}\<close>, \<open>{action: "updated", changes}\<close> with
  \<open>changes[key] = {from, to}\<close>, or \<open>{action: "imported", data}\<close>.
\<close>

type_synonym changes = "(string \<times> jsval \<times> jsval) list"

datatype diff =
    Created js_object
  | Updated changes
  | Imported js_object

record history_row =
  buyer_id :: nat
  changed_by :: string
  diff :: diff

record store =
  buyers :: "(nat \<times> db_row) list"
  buyer_history :: "history_row list"
  next_id :: nat

record user =
  user_id :: string
  role :: string

subsection \<open>Table constraints of \<open>001_initial_schema.sql\<close>\<close>

definition CityEnum :: "string list" where
  "CityEnum = [''Chandigarh'', ''Mohali'', ''Zirakpur'', ''Panchkula'', ''Other'']"

definition PropertyTypeEnum :: "string list" where
  "PropertyTypeEnum = [''Apartment'', ''Villa'', ''Plot'', ''Office'', ''Retail'']"

definition BHKEnum :: "string list" where
  "BHKEnum = [''1'', ''2'', ''3'', ''4'', ''Studio'']"

definition PurposeEnum :: "string list" where
  "PurposeEnum = [''Buy'', ''Rent'']"

definition TimelineEnum :: "string list" where
  "TimelineEnum = [''0-3m'', ''3-6m'', ''>6m'', ''Exploring'']"

definition SourceEnum :: "string list" where
  "SourceEnum = [''Website'', ''Referral'', ''Walk-in'', ''Call'', ''Other'']"

definition StatusEnum :: "string list" where
  "StatusEnum = [''New'', ''Qualified'', ''Contacted'', ''Visited'', ''Negotiation'',
                 ''Converted'', ''Dropped'']"

definition is_digit :: "char \<Rightarrow> bool" where
  "is_digit c = (48 \<le> (of_char c :: nat) \<and> (of_char c :: nat) \<le> 57)"

text \<open>The pattern \<open>^\d{10,15}$\<close>, of the \<open>phone\<close> column and of \<open>phoneSchema\<close>.\<close>

definition phone_regex :: "string \<Rightarrow> bool" where
  "phone_regex s = (10 \<le> length s \<and> length s \<le> 15 \<and> list_all is_digit s)"

text \<open>A \<open>VARCHAR(n)\<close> value.\<close>

definition varchar :: "nat \<Rightarrow> jsval \<Rightarrow> bool" where
  "varchar n v = (case v of JStr s \<Rightarrow> length s \<le> n | _ \<Rightarrow> False)"

text \<open>\<open>col IN (...)\<close>.\<close>

definition col_in :: "string list \<Rightarrow> jsval \<Rightarrow> bool" where
  "col_in opts v = (case v of JStr s \<Rightarrow> s \<in> set opts | _ \<Rightarrow> False)"

text \<open>An \<open>INTEGER\<close> value with \<open>CHECK (col >= 0)\<close>.\<close>

definition int4_nonneg :: "jsval \<Rightarrow> bool" where
  "int4_nonneg v = (case v of JNum n \<Rightarrow> 0 \<le> n \<and> n \<le> 2147483647 | _ \<Rightarrow> False)"

text \<open>A column without \<open>NOT NULL\<close>: a check holds on \<open>NULL\<close>.\<close>

definition nullable :: "(jsval \<Rightarrow> bool) \<Rightarrow> jsval \<Rightarrow> bool" where
  "nullable P v = (v = JNull \<or> P v)"

definition budget_check :: "db_row \<Rightarrow> bool" where
  "budget_check r =
     (case (r ''budget_min'', r ''budget_max'') of
        (JNum lo, JNum hi) \<Rightarrow> lo \<le> hi
      | _ \<Rightarrow> True)"

definition bhk_required_check :: "db_row \<Rightarrow> bool" where
  "bhk_required_check r =
     (r ''property_type'' \<notin> {JStr ''Apartment'', JStr ''Villa''} \<or> r ''bhk'' \<noteq> JNull)"

text \<open>
  What the table accepts in a row: the column types, \<open>NOT NULL\<close>, the column checks
  and the two table checks (a \<open>UUID\<close> is kept as a non-empty text).  A statement that would leave a row outside is refused by
  the store and changes nothing.
\<close>

definition buyers_constraints :: "db_row \<Rightarrow> bool" where
  "buyers_constraints r =
     (varchar 80 (r ''full_name'') \<and>
      (case r ''full_name'' of JStr s \<Rightarrow> 2 \<le> length s | _ \<Rightarrow> False) \<and>
      nullable (varchar 255) (r ''email'') \<and>
      varchar 15 (r ''phone'') \<and>
      (case r ''phone'' of JStr s \<Rightarrow> phone_regex s | _ \<Rightarrow> False) \<and>
      col_in CityEnum (r ''city'') \<and>
      col_in PropertyTypeEnum (r ''property_type'') \<and>
      nullable (col_in BHKEnum) (r ''bhk'') \<and>
      col_in PurposeEnum (r ''purpose'') \<and>
      nullable int4_nonneg (r ''budget_min'') \<and>
      nullable int4_nonneg (r ''budget_max'') \<and>
      col_in TimelineEnum (r ''timeline'') \<and>
      col_in SourceEnum (r ''source'') \<and>
      nullable (col_in StatusEnum) (r ''status'') \<and>
      nullable (\<lambda>v. case v of JStr s \<Rightarrow> length s \<le> 1000 | _ \<Rightarrow> False) (r ''notes'') \<and>
      nullable (\<lambda>v. case v of JArr ts \<Rightarrow> True | _ \<Rightarrow> False) (r ''tags'') \<and>
      (case r ''owner_id'' of JStr u \<Rightarrow> u \<noteq> [] | _ \<Rightarrow> False) \<and>
      budget_check r \<and>
      bhk_required_check r)"

section \<open>Validation issues\<close>

text \<open>
  What a failed \<open>schema.parse\<close> throws: a \<open>ZodError\<close> holding issues, each with
  the library's issue code, the path of the field and the message (\<open>Some\<close> for a
  message written in the schema, \<open>None\<close> for the library's default text).
\<close>

datatype zod_code =
    invalid_type
  | invalid_value
  | invalid_union
  | invalid_format
  | too_small
  | too_big
  | custom

datatype issue = Issue zod_code "string list" "string option"

text \<open>
  \<open>error.errors\<close> on a caught \<open>ZodError\<close>.  In the release line of the library that
  has \<open>safeExtend\<close> the error keeps its issues under \<open>issues\<close> and has no property
  \<open>errors\<close>: the read gives \<open>undefined\<close> (\<open>None\<close>), whatever the issues are.
\<close>

definition ZodError_errors :: "issue list \<Rightarrow> issue list option" where
  "ZodError_errors issues = None"

section \<open>PUT /api/buyers/:id\<close>

text \<open>
  The outcomes of the handler.  \<open>ValidationFailed\<close> stands for the 400 answer to a
  \<open>ZodError\<close> and names the issues of the error that was caught, \<open>Conflict\<close> carries
  \<open>currentUpdatedAt\<close>, \<open>Ok\<close> the row returned by the statement and
  \<open>InternalError\<close> is the 500 answer to any other exception.
\<close>

datatype response =
    Ok "db_row option"
  | ValidationFailed "issue list"
  | BadRequest string
  | NotFound
  | Forbidden
  | Conflict jsval
  | InternalError

definition checkOwnership :: "user \<Rightarrow> jsval \<Rightarrow> bool" where
  "checkOwnership u buyerOwnerId = (role u = ''admin'' \<or> JStr (user_id u) = buyerOwnerId)"

definition recordHistory :: "nat \<Rightarrow> string \<Rightarrow> diff \<Rightarrow> store \<Rightarrow> store" where
  "recordHistory buyerId changedBy d st =
     st\<lparr>buyer_history := buyer_history st @
          [\<lparr>buyer_id = buyerId, changed_by = changedBy, diff = d\<rparr>]\<rparr>"

definition fieldMapping :: "(string \<times> string) list" where
  "fieldMapping =
     [(''fullName'', ''full_name''),
      (''email'', ''email''),
      (''phone'', ''phone''),
      (''city'', ''city''),
      (''propertyType'', ''property_type''),
      (''bhk'', ''bhk''),
      (''purpose'', ''purpose''),
      (''budgetMin'', ''budget_min''),
      (''budgetMax'', ''budget_max''),
      (''timeline'', ''timeline''),
      (''source'', ''source''),
      (''status'', ''status''),
      (''notes'', ''notes''),
      (''tags'', ''tags'')]"

text \<open>
  \<open>fieldMapping\<close> is an object literal, so \<open>fieldMapping[key]\<close> also finds what
  \<open>Object.prototype\<close> provides: a function or object, which is truthy and whose text is
  no column of the table.  The schema strips every key it does not declare, so such a
  key never reaches the loop; the model still says what the lookup gives.
\<close>

definition Object_prototype :: "string list" where
  "Object_prototype =
     [''constructor'', ''__defineGetter__'', ''__defineSetter__'', ''hasOwnProperty'',
      ''__lookupGetter__'', ''__lookupSetter__'', ''isPrototypeOf'',
      ''propertyIsEnumerable'', ''toString'', ''valueOf'', ''__proto__'',
      ''toLocaleString'']"

datatype db_field = Column string | Inherited

definition fieldMapping_get :: "string \<Rightarrow> db_field option" where
  "fieldMapping_get key =
     (case map_of fieldMapping key of
        Some c \<Rightarrow> Some (Column c)
      | None \<Rightarrow> if key \<in> set Object_prototype then Some Inherited else None)"

fun row_get :: "db_row \<Rightarrow> db_field \<Rightarrow> jsval" where
  "row_get r (Column c) = r c"
| "row_get r Inherited = JUndefined"

text \<open>
  The loop over \<open>Object.entries(validatedData)\<close>.  \<open>updateFields\<close> and
  \<open>updateValues\<close> grow together and are kept as one list of (column, value) pairs.
\<close>

fun update_loop ::
  "db_row \<Rightarrow> js_object \<Rightarrow> (db_field \<times> jsval) list \<times> changes \<Rightarrow>
   (db_field \<times> jsval) list \<times> changes" where
  "update_loop currentBuyer [] acc = acc"
| "update_loop currentBuyer ((key, val) # rest) (updates, chs) =
     (if key = ''updatedAt'' then update_loop currentBuyer rest (updates, chs)
      else
        (case fieldMapping_get key of
           None \<Rightarrow> update_loop currentBuyer rest (updates, chs)
         | Some dbField \<Rightarrow>
             if val = JUndefined then update_loop currentBuyer rest (updates, chs)
             else
               update_loop currentBuyer rest
                 (updates @ [(dbField, if val = JStr [] then JNull else val)],
                  if strict_neq (row_get currentBuyer dbField) val
                  then obj_set chs key (row_get currentBuyer dbField, val)
                  else chs)))"

fun assign :: "db_field \<times> jsval \<Rightarrow> db_row \<Rightarrow> db_row" where
  "assign (Column c, v) r = r(c := v)"
| "assign (Inherited, v) r = r"

text \<open>
  \<open>UPDATE buyers SET ..., updated_at = CURRENT_TIMESTAMP WHERE id = $n RETURNING *\<close>
  at the instant \<open>now\<close>.  \<open>None\<close>: the statement raises (a target that is no column,
  a column assigned twice, a constraint violated by an updated row) and nothing is
  written.  Otherwise the rows returned and the store after the statement.
\<close>

definition update_buyers ::
  "int \<Rightarrow> nat \<Rightarrow> (db_field \<times> jsval) list \<Rightarrow> store \<Rightarrow> (db_row list \<times> store) option" where
  "update_buyers now lid sets st =
     (let upd = (\<lambda>r. (fold assign sets r)(''updated_at'' := JDate now));
          hit = map snd (filter (\<lambda>(i, r). i = lid) (buyers st))
      in
        if Inherited \<in> set (map fst sets) \<or> \<not> distinct (map fst sets) then None
        else if list_all (\<lambda>r. buyers_constraints (upd r)) hit
        then Some (map upd hit,
                   st\<lparr>buyers := map (\<lambda>(i, r). if i = lid then (i, upd r) else (i, r)) (buyers st)\<rparr>)
        else None)"

fun join :: "string \<Rightarrow> string list \<Rightarrow> string" where
  "join sep [] = []"
| "join sep [x] = x"
| "join sep (x # y # ys) = x @ sep @ join sep (y # ys)"

text \<open>
  \<open>new Date(v).getTime()\<close>, with \<open>None\<close> for \<open>NaN\<close> (an invalid date).
  \<open>date_parse\<close> is the engine's parser of date text, a parameter of the model.
\<close>

fun new_Date :: "(string \<Rightarrow> int option) \<Rightarrow> jsval \<Rightarrow> int option" where
  "new_Date date_parse (JDate t) = Some t"
| "new_Date date_parse (JStr s) = date_parse s"
| "new_Date date_parse (JArr xs) = date_parse (join '','' xs)"
| "new_Date date_parse (JNum n) = Some n"
| "new_Date date_parse (JBool b) = Some (if b then 1 else 0)"
| "new_Date date_parse JNull = Some 0"
| "new_Date date_parse JNaN = None"
| "new_Date date_parse JUndefined = None"

text \<open>\<open>a.getTime() !== b.getTime()\<close>: \<open>NaN\<close> differs from everything.\<close>

fun time_neq :: "int option \<Rightarrow> int option \<Rightarrow> bool" where
  "time_neq (Some a) (Some b) = (a \<noteq> b)"
| "time_neq a b = True"

text \<open>
  The handler from the point where the concurrency check has been passed: build the
  statement, refuse an empty one, run it, record the changes.
\<close>

definition apply_update ::
  "int \<Rightarrow> user \<Rightarrow> nat \<Rightarrow> db_row \<Rightarrow> js_object \<Rightarrow> store \<Rightarrow> response \<times> store" where
  "apply_update now u lid currentBuyer validatedData st =
     (case update_loop currentBuyer validatedData ([], []) of
        (updates, chs) \<Rightarrow>
          if updates = [] then (BadRequest ''No valid fields to update'', st)
          else
            (case update_buyers now lid updates st of
               None \<Rightarrow> (InternalError, st)
             | Some (rows, st') \<Rightarrow>
                 (Ok (case rows of [] \<Rightarrow> None | updatedBuyer # _ \<Rightarrow> Some updatedBuyer),
                  if chs \<noteq> []
                  then recordHistory lid (user_id u) (Updated chs) st'
                  else st')))"

text \<open>
  The handler, from the outcome of its first statement on.  \<open>parsed\<close> is the outcome
  of \<open>updateBuyerSchema.parse(req.body)\<close>: the issues of the thrown \<open>ZodError\<close>, or
  \<open>validatedData\<close>.  \<open>now\<close> is the value of \<open>CURRENT_TIMESTAMP\<close> when the
  statement runs.  The parse itself is \<open>updateBuyerSchema_parse\<close> below, and
  \<open>updateLead_request\<close> is the handler applied to a request body.
\<close>

definition updateLead ::
  "(string \<Rightarrow> int option) \<Rightarrow> int \<Rightarrow> user \<Rightarrow> nat \<Rightarrow> issue list + js_object \<Rightarrow> store \<Rightarrow>
   response \<times> store" where
  "updateLead date_parse now u lid parsed st =
     (case parsed of
        Inl issues \<Rightarrow> (ValidationFailed issues, st)
      | Inr validatedData \<Rightarrow>
          (case map_of (buyers st) lid of
             None \<Rightarrow> (NotFound, st)
           | Some currentBuyer \<Rightarrow>
               if \<not> checkOwnership u (currentBuyer ''owner_id'') then (Forbidden, st)
               else if truthy (get validatedData ''updatedAt'') \<and>
                       time_neq (new_Date date_parse (get validatedData ''updatedAt''))
                                (new_Date date_parse (currentBuyer ''updated_at''))
               then (Conflict (currentBuyer ''updated_at''), st)
               else apply_update now u lid currentBuyer validatedData st))"

section \<open>Validation schemas\<close>

text \<open>
  A schema is read as the list of issues it raises on a value (none: the value passes).
  The library is zod 4, the release line that provides \<open>safeExtend\<close>.  What the model
  takes from it: an object schema validates every declared key and gathers all issues;
  a key of the input that is not declared is dropped without an issue; a refinement of
  an object is run unless a field has raised an issue that aborts (wrong type, value
  outside an enum or literal, a union none of whose branches can be singled out); the
  issue of a check on a string or a number (format, length, bound) does not abort.  Two
  facts about the engine are parameters: \<open>is_email\<close>, the pattern of \<open>.email()\<close>, and
  \<open>is_datetime\<close>, the pattern of \<open>.datetime()\<close>.
\<close>

type_synonym schema = "jsval \<Rightarrow> issue list"

fun prefix_path :: "string \<Rightarrow> issue \<Rightarrow> issue" where
  "prefix_path key (Issue c path msg) = Issue c (key # path) msg"

fun aborts :: "issue \<Rightarrow> bool" where
  "aborts (Issue c path msg) = (c \<in> {invalid_type, invalid_value, invalid_union})"

definition z_enum :: "string list \<Rightarrow> schema" where
  "z_enum opts v =
     (case v of
        JStr s \<Rightarrow> if s \<in> set opts then [] else [Issue invalid_value [] None]
      | _ \<Rightarrow> [Issue invalid_value [] None])"

definition z_literal :: "string \<Rightarrow> schema" where
  "z_literal lit v = (if v = JStr lit then [] else [Issue invalid_value [] None])"

definition z_optional :: "schema \<Rightarrow> schema" where
  "z_optional el v = (if v = JUndefined then [] else el v)"

text \<open>\<open>.default(d)\<close>: an absent value passes (and is replaced by \<open>d\<close> in the output).\<close>

definition z_default :: "schema \<Rightarrow> schema" where
  "z_default el v = (if v = JUndefined then [] else el v)"

text \<open>
  \<open>a.or(b)\<close>, which is \<open>z.union([a, b])\<close>.  The first branch without issues gives
  the result.  When both branches have issues and exactly one of them has raised no
  aborting issue, the issues of that branch are the union's; otherwise the union raises
  \<open>invalid_union\<close>.
\<close>

definition z_or :: "schema \<Rightarrow> schema \<Rightarrow> schema" where
  "z_or a b v =
     (if a v = [] \<or> b v = [] then []
      else
        (case filter (\<lambda>issues. \<not> list_ex aborts issues) [a v, b v] of
           [issues] \<Rightarrow> issues
         | _ \<Rightarrow> [Issue invalid_union [] None]))"

text \<open>\<open>z.string()\<close> followed by checks, each of which adds its issue.\<close>

definition z_string :: "(string \<Rightarrow> issue list) \<Rightarrow> schema" where
  "z_string checks v = (case v of JStr s \<Rightarrow> checks s | _ \<Rightarrow> [Issue invalid_type [] None])"

definition min_length :: "nat \<Rightarrow> string \<Rightarrow> string \<Rightarrow> issue list" where
  "min_length n msg s = (if length s < n then [Issue too_small [] (Some msg)] else [])"

definition max_length :: "nat \<Rightarrow> string \<Rightarrow> string \<Rightarrow> issue list" where
  "max_length n msg s = (if n < length s then [Issue too_big [] (Some msg)] else [])"

definition matches :: "(string \<Rightarrow> bool) \<Rightarrow> string option \<Rightarrow> string \<Rightarrow> issue list" where
  "matches pattern msg s = (if pattern s then [] else [Issue invalid_format [] msg])"

text \<open>
  \<open>z.number().int().min(0)\<close>: \<open>NaN\<close> is no number, \<open>.int()\<close> keeps to the safe
  integers, \<open>.min(0)\<close> refuses a negative one.
\<close>

definition budget_number :: schema where
  "budget_number v =
     (case v of
        JNum n \<Rightarrow>
          (if n < - 9007199254740991 then [Issue too_small [] None]
           else if 9007199254740991 < n then [Issue too_big [] None] else []) @
          (if n < 0 then [Issue too_small [] None] else [])
      | _ \<Rightarrow> [Issue invalid_type [] None])"

definition z_array_of_strings :: schema where
  "z_array_of_strings v = (case v of JArr ts \<Rightarrow> [] | _ \<Rightarrow> [Issue invalid_type [] None])"

definition phoneSchema :: schema where
  "phoneSchema = z_string (matches phone_regex (Some ''Phone must be 10-15 digits''))"

text \<open>The shape of \<open>buyerSchema\<close>, in the order of its keys.\<close>

definition buyer_shape :: "(string \<Rightarrow> bool) \<Rightarrow> (string \<times> schema) list" where
  "buyer_shape is_email =
     [(''fullName'',
         z_string (\<lambda>s. min_length 2 ''Full name must be at least 2 characters'' s @
                       max_length 80 ''Full name must be less than 80 characters'' s)),
      (''email'',
         z_or (z_optional (z_string (matches is_email (Some ''Invalid email format''))))
              (z_literal [])),
      (''phone'', phoneSchema),
      (''city'', z_enum CityEnum),
      (''propertyType'', z_enum PropertyTypeEnum),
      (''bhk'', z_optional (z_enum BHKEnum)),
      (''purpose'', z_enum PurposeEnum),
      (''budgetMin'', z_optional budget_number),
      (''budgetMax'', z_optional budget_number),
      (''timeline'', z_enum TimelineEnum),
      (''source'', z_enum SourceEnum),
      (''status'', z_default (z_enum StatusEnum)),
      (''notes'',
         z_optional (z_string (max_length 1000 ''Notes must be less than 1000 characters''))),
      (''tags'', z_default (z_optional z_array_of_strings))]"

text \<open>The keys of that shape.\<close>

definition buyer_keys :: "string list" where
  "buyer_keys =
     [''fullName'', ''email'', ''phone'', ''city'', ''propertyType'', ''bhk'', ''purpose'',
      ''budgetMin'', ''budgetMax'', ''timeline'', ''source'', ''status'', ''notes'', ''tags'']"

definition parse_shape :: "(string \<times> schema) list \<Rightarrow> js_object \<Rightarrow> issue list" where
  "parse_shape shape input =
     concat (map (\<lambda>(key, el). map (prefix_path key) (el (get input key))) shape)"

text \<open>\<open>a >= b\<close> on the numbers that reach the budget refinement.\<close>

fun js_ge :: "jsval \<Rightarrow> jsval \<Rightarrow> bool" where
  "js_ge (JNum a) (JNum b) = (b \<le> a)"
| "js_ge a b = False"

text \<open>
  The two predicates given to \<open>.refine\<close>.  \<open>data\<close> is the parsed object, which holds
  these four fields as they were given.
\<close>

definition bhk_refinement :: "js_object \<Rightarrow> bool" where
  "bhk_refinement data =
     (if get data ''propertyType'' \<in> {JStr ''Apartment'', JStr ''Villa''} \<and>
         \<not> truthy (get data ''bhk'')
      then False else True)"

definition budget_refinement :: "js_object \<Rightarrow> bool" where
  "budget_refinement data =
     (if truthy (get data ''budgetMin'') \<and> truthy (get data ''budgetMax'')
      then js_ge (get data ''budgetMax'') (get data ''budgetMin'')
      else True)"

definition refinements :: "js_object \<Rightarrow> issue list" where
  "refinements data =
     (if bhk_refinement data then []
      else [Issue custom [''bhk'']
              (Some ''BHK is required for Apartment and Villa property types'')]) @
     (if budget_refinement data then []
      else [Issue custom [''budgetMax'']
              (Some ''Budget max must be greater than or equal to budget min'')])"

definition refined :: "(string \<times> schema) list \<Rightarrow> js_object \<Rightarrow> issue list" where
  "refined shape input =
     (let field_issues = parse_shape shape input in
      if list_ex aborts field_issues then field_issues
      else field_issues @ refinements input)"

definition buyerSchema :: "(string \<Rightarrow> bool) \<Rightarrow> js_object \<Rightarrow> issue list" where
  "buyerSchema is_email = refined (buyer_shape is_email)"

text \<open>
  \<open>csvRowSchema = buyerSchema.safeExtend({tags: z.string().optional().transform(...)})\<close>:
  the \<open>tags\<close> key is replaced in the shape and the refinements are kept.
\<close>

definition csv_shape :: "(string \<Rightarrow> bool) \<Rightarrow> (string \<times> schema) list" where
  "csv_shape is_email =
     map (\<lambda>(key, el). if key = ''tags'' then (key, z_optional (z_string (\<lambda>s. []))) else (key, el))
       (buyer_shape is_email)"

definition csvRowSchema :: "(string \<Rightarrow> bool) \<Rightarrow> js_object \<Rightarrow> issue list" where
  "csvRowSchema is_email = refined (csv_shape is_email)"

text \<open>
  \<open>updateBuyerSchema = buyerSchema.partial().safeExtend({updatedAt: ...})\<close>.  In zod 4
  \<open>partial()\<close> wraps every field in \<open>optional\<close> and returns an object schema with an
  empty list of checks: the two refinements of \<open>buyerSchema\<close> are not part of the
  partial schema, and \<open>safeExtend\<close> has none to keep.
\<close>

definition partial :: "(string \<times> schema) list \<Rightarrow> (string \<times> schema) list" where
  "partial shape = map (\<lambda>(key, el). (key, z_optional el)) shape"

definition updateBuyerSchema ::
  "(string \<Rightarrow> bool) \<Rightarrow> (string \<Rightarrow> bool) \<Rightarrow> js_object \<Rightarrow> issue list" where
  "updateBuyerSchema is_email is_datetime =
     parse_shape (partial (buyer_shape is_email) @
                  [(''updatedAt'', z_optional (z_string (matches is_datetime None)))])"

text \<open>
  The object \<open>updateBuyerSchema.parse\<close> returns for a body that passes.  The parse
  visits every declared key, also one the body lacks: \<open>optional\<close> hands the missing
  value on to a field that has a default, and that field answers with its default.  So
  \<open>status\<close> comes back as \<open>"New"\<close> and \<open>tags\<close> as \<open>[]\<close> whenever the body
  does not give them.  Any other key is left out when the body lacks it, and a key the
  schema does not declare is dropped.
\<close>

definition updateBuyer_output :: "js_object \<Rightarrow> js_object" where
  "updateBuyer_output input =
     filter (\<lambda>(key, v). v \<noteq> JUndefined \<or> key \<in> fst ` set input)
       (map (\<lambda>key.
               (key,
                if key = ''status''
                then (if get input key = JUndefined then JStr ''New'' else get input key)
                else if key = ''tags''
                then (if get input key = JUndefined then JArr [] else get input key)
                else get input key))
          (buyer_keys @ [''updatedAt'']))"

definition updateBuyerSchema_parse ::
  "(string \<Rightarrow> bool) \<Rightarrow> (string \<Rightarrow> bool) \<Rightarrow> js_object \<Rightarrow> issue list + js_object" where
  "updateBuyerSchema_parse is_email is_datetime body =
     (case updateBuyerSchema is_email is_datetime body of
        [] \<Rightarrow> Inr (updateBuyer_output body)
      | issues \<Rightarrow> Inl issues)"

text \<open>The handler applied to the body of a request.\<close>

definition updateLead_request ::
  "(string \<Rightarrow> bool) \<Rightarrow> (string \<Rightarrow> bool) \<Rightarrow> (string \<Rightarrow> int option) \<Rightarrow> int \<Rightarrow> user \<Rightarrow> nat \<Rightarrow>
   js_object \<Rightarrow> store \<Rightarrow> response \<times> store" where
  "updateLead_request is_email is_datetime date_parse now u lid body st =
     updateLead date_parse now u lid (updateBuyerSchema_parse is_email is_datetime body) st"

section \<open>Text and numbers\<close>

text \<open>
  White space as \<open>trim\<close> and \<open>parseInt\<close> skip it, within ASCII: tab, line feed,
  vertical tab, form feed, carriage return, space.
\<close>

definition is_ws :: "char \<Rightarrow> bool" where
  "is_ws c = (c \<in> {CHR 0x09, CHR 0x0A, CHR 0x0B, CHR 0x0C, CHR 0x0D, CHR 0x20})"

definition trim :: "string \<Rightarrow> string" where
  "trim s = rev (dropWhile is_ws (rev (dropWhile is_ws s)))"

text \<open>\<open>s.split(sep)\<close> for a separator of one character.\<close>

fun split_on :: "char \<Rightarrow> string \<Rightarrow> string list" where
  "split_on sep [] = [[]]"
| "split_on sep (c # cs) =
     (if c = sep then [] # split_on sep cs
      else (case split_on sep cs of
              w # ws \<Rightarrow> (c # w) # ws
            | [] \<Rightarrow> [[c]]))"

text \<open>\<open>String(n)\<close> for an integer: its decimal digits, with a sign when negative.\<close>

fun decimal :: "nat \<Rightarrow> string" where
  "decimal n =
     (if n < 10 then [char_of (48 + n)]
      else decimal (n div 10) @ [char_of (48 + n mod 10)])"

declare decimal.simps [simp del]

definition digit_value :: "char \<Rightarrow> nat" where
  "digit_value c =
     (let n = of_char c in
      if 48 \<le> n \<and> n \<le> 57 then n - 48
      else if 97 \<le> n \<and> n \<le> 102 then n - 87
      else n - 55)"

definition is_radix_digit :: "nat \<Rightarrow> char \<Rightarrow> bool" where
  "is_radix_digit radix c =
     (is_digit c \<or>
      (radix = 16 \<and> ((97 \<le> (of_char c :: nat) \<and> (of_char c :: nat) \<le> 102) \<or>
                      (65 \<le> (of_char c :: nat) \<and> (of_char c :: nat) \<le> 70))))"

text \<open>
  \<open>Number.parseInt(text)\<close> with no radix: leading white space and a sign are skipped,
  \<open>0x\<close> selects base 16, the longest run of digits is read, and no digit gives
  \<open>NaN\<close>.
\<close>

definition parseInt :: "string \<Rightarrow> jsval" where
  "parseInt text =
     (let s = dropWhile is_ws text;
          negative = (s \<noteq> [] \<and> hd s = CHR ''-'');
          s = (if s \<noteq> [] \<and> (hd s = CHR ''+'' \<or> hd s = CHR ''-'') then tl s else s);
          hex = (take 2 s = ''0x'' \<or> take 2 s = ''0X'');
          radix = (if hex then 16 else 10);
          s = (if hex then drop 2 s else s);
          z = takeWhile (is_radix_digit radix) s
      in if z = [] then JNaN
         else JNum ((if negative then - 1 else 1) *
                    int (foldl (\<lambda>acc c. acc * radix + digit_value c) 0 z)))"

section \<open>POST /api/buyers/import\<close>

text \<open>
  The handler starts from the rows that \<open>csv-parser\<close> has read: each row maps a column
  title to the text of the cell.
\<close>

type_synonym csv_row = "(string \<times> string) list"

text \<open>\<open>row.key ? Number.parseInt(row.key) : undefined\<close>.\<close>

definition number_cell :: "csv_row \<Rightarrow> string \<Rightarrow> jsval" where
  "number_cell row key =
     (case map_of row key of
        Some s \<Rightarrow> if s \<noteq> [] then parseInt s else JUndefined
      | None \<Rightarrow> JUndefined)"

definition processedRow :: "csv_row \<Rightarrow> js_object" where
  "processedRow row =
     obj_set
       (obj_set
          (obj_set (map (\<lambda>(key, s). (key, JStr s)) row)
             ''budgetMin'' (number_cell row ''budgetMin''))
          ''budgetMax'' (number_cell row ''budgetMax''))
       ''tags'' (case map_of row ''tags'' of Some s \<Rightarrow> JStr s | None \<Rightarrow> JStr [])"

text \<open>The transform of the \<open>tags\<close> cell: split at commas, trim, drop the empty.\<close>

definition csv_tags :: "jsval \<Rightarrow> jsval" where
  "csv_tags v =
     (case v of
        JStr s \<Rightarrow>
          if s = [] then JArr []
          else JArr (filter (\<lambda>tag. 0 < length tag) (map trim (split_on CHR '','' s)))
      | _ \<Rightarrow> JArr [])"

text \<open>
  The object \<open>csvRowSchema.parse\<close> returns for a row that passes: the declared keys
  only, \<open>status\<close> defaulted to \<open>New\<close>, \<open>tags\<close> transformed, a key left out when it
  is absent from the input and has no value.
\<close>

definition csvRow_output :: "js_object \<Rightarrow> js_object" where
  "csvRow_output input =
     filter (\<lambda>(key, v). v \<noteq> JUndefined \<or> key \<in> fst ` set input)
       (map (\<lambda>key.
               (key,
                if key = ''status''
                then (if get input key = JUndefined then JStr ''New'' else get input key)
                else if key = ''tags'' then csv_tags (get input key)
                else get input key))
          buyer_keys)"

text \<open>
  The text \<open>path.join(".") + ": " + message\<close> the handler makes of an issue; a message
  the schema does not write is the library's and is left open (\<open>None\<close>).
\<close>

fun row_message :: "issue \<Rightarrow> string \<times> string option" where
  "row_message (Issue c path msg) = (join ''.'' path, msg)"

text \<open>
  An entry of the rejection list, \<open>{row, errors}\<close>: the position of the row and
  \<open>error.errors?.map(...)\<close>, which is \<open>undefined\<close> (\<open>None\<close>) when the error has
  no \<open>errors\<close>.
\<close>

type_synonym row_error = "nat \<times> (string \<times> string option) list option"

text \<open>
  \<open>rows.forEach((row, index) => ...)\<close>: a row that passes joins \<open>validRows\<close>, a row
  that fails adds the entry \<open>{row: index + 1, errors: error.errors?.map(...)}\<close>.
\<close>

fun validate_rows ::
  "(string \<Rightarrow> bool) \<Rightarrow> csv_row list \<Rightarrow> nat \<Rightarrow> js_object list \<times> row_error list \<Rightarrow>
   js_object list \<times> row_error list" where
  "validate_rows is_email [] index acc = acc"
| "validate_rows is_email (row # rows) index (validRows, errors) =
     (case csvRowSchema is_email (processedRow row) of
        [] \<Rightarrow>
          validate_rows is_email rows (index + 1)
            (validRows @ [csvRow_output (processedRow row)], errors)
      | issues \<Rightarrow>
          validate_rows is_email rows (index + 1)
            (validRows,
             errors @ [(index + 1, map_option (map row_message) (ZodError_errors issues))]))"

text \<open>A query parameter that is \<open>undefined\<close> is sent as \<open>NULL\<close>.\<close>

definition pg_param :: "jsval \<Rightarrow> jsval" where
  "pg_param v = (if v = JUndefined then JNull else v)"

text \<open>The values of the \<open>INSERT\<close>, column by column (\<open>x || null\<close> is \<open>js_or x JNull\<close>).\<close>

definition insert_values :: "string \<Rightarrow> js_object \<Rightarrow> db_row" where
  "insert_values owner row =
     (\<lambda>c. JUndefined)
     (''full_name'' := pg_param (get row ''fullName''),
      ''email'' := js_or (get row ''email'') JNull,
      ''phone'' := pg_param (get row ''phone''),
      ''city'' := pg_param (get row ''city''),
      ''property_type'' := pg_param (get row ''propertyType''),
      ''bhk'' := js_or (get row ''bhk'') JNull,
      ''purpose'' := pg_param (get row ''purpose''),
      ''budget_min'' := js_or (get row ''budgetMin'') JNull,
      ''budget_max'' := js_or (get row ''budgetMax'') JNull,
      ''timeline'' := pg_param (get row ''timeline''),
      ''source'' := pg_param (get row ''source''),
      ''status'' := js_or (get row ''status'') (JStr ''New''),
      ''notes'' := js_or (get row ''notes'') JNull,
      ''tags'' := js_or (get row ''tags'') (JArr []),
      ''owner_id'' := JStr owner)"

text \<open>The two columns with \<open>DEFAULT CURRENT_TIMESTAMP\<close>, filled at the instant \<open>now\<close>.\<close>

definition with_defaults :: "int \<Rightarrow> db_row \<Rightarrow> db_row" where
  "with_defaults now vals = vals(''created_at'' := JDate now, ''updated_at'' := JDate now)"

text \<open>
  \<open>INSERT INTO buyers ... RETURNING *\<close> at the instant \<open>now\<close>: the new id, the new
  row and the store, or \<open>None\<close> when the table refuses the row.
\<close>

definition insert_buyer :: "int \<Rightarrow> db_row \<Rightarrow> store \<Rightarrow> (nat \<times> db_row \<times> store) option" where
  "insert_buyer now vals st =
     (let buyer = with_defaults now vals in
      if buyers_constraints buyer
      then Some (next_id st, buyer,
                 st\<lparr>buyers := buyers st @ [(next_id st, buyer)], next_id := Suc (next_id st)\<rparr>)
      else None)"

text \<open>The loop inside the transaction; \<open>None\<close> when a statement raises.\<close>

fun insert_rows ::
  "int \<Rightarrow> user \<Rightarrow> js_object list \<Rightarrow> db_row list \<Rightarrow> store \<Rightarrow> (db_row list \<times> store) option" where
  "insert_rows now u [] insertedBuyers st = Some (insertedBuyers, st)"
| "insert_rows now u (row # rows) insertedBuyers st =
     (case insert_buyer now (insert_values (user_id u) row) st of
        None \<Rightarrow> None
      | Some (lid, buyer, st') \<Rightarrow>
          insert_rows now u rows (insertedBuyers @ [buyer])
            (recordHistory lid (user_id u) (Imported row) st'))"

datatype import_response =
    ImportOk nat "db_row list"
  | ImportRejected "row_error list" nat nat
  | ImportBadRequest string
  | ImportInternalError

text \<open>
  The handler.  A statement that raises inside the transaction leads to \<open>ROLLBACK\<close>:
  the store is the one before \<open>BEGIN\<close>.
\<close>

definition importLeads ::
  "(string \<Rightarrow> bool) \<Rightarrow> int \<Rightarrow> user \<Rightarrow> csv_row list \<Rightarrow> store \<Rightarrow> import_response \<times> store" where
  "importLeads is_email now u rows st =
     (if length rows = 0 then (ImportBadRequest ''CSV file is empty'', st)
      else if 200 < length rows
      then (ImportBadRequest ''CSV file cannot contain more than 200 rows'', st)
      else
        (case validate_rows is_email rows 0 ([], []) of
           (validRows, errors) \<Rightarrow>
             if 0 < length errors
             then (ImportRejected errors (length validRows) (length rows), st)
             else
               (case insert_rows now u validRows [] st of
                  None \<Rightarrow> (ImportInternalError, st)
                | Some (insertedBuyers, st') \<Rightarrow>
                    (ImportOk (length insertedBuyers) insertedBuyers, st'))))"

section \<open>GET /api/buyers/export\<close>

text \<open>\<open>array_to_string(tags, ',')\<close>.\<close>

definition array_to_string :: "jsval \<Rightarrow> string \<Rightarrow> jsval" where
  "array_to_string v sep = (case v of JArr ts \<Rightarrow> JStr (join sep ts) | _ \<Rightarrow> JNull)"

text \<open>The columns of the \<open>SELECT\<close> under their aliases.\<close>

definition export_select :: "db_row \<Rightarrow> js_object" where
  "export_select b =
     [(''fullName'', b ''full_name''),
      (''email'', b ''email''),
      (''phone'', b ''phone''),
      (''city'', b ''city''),
      (''propertyType'', b ''property_type''),
      (''bhk'', b ''bhk''),
      (''purpose'', b ''purpose''),
      (''budgetMin'', b ''budget_min''),
      (''budgetMax'', b ''budget_max''),
      (''timeline'', b ''timeline''),
      (''source'', b ''source''),
      (''status'', b ''status''),
      (''notes'', b ''notes''),
      (''tags'', array_to_string (b ''tags'') '',''),
      (''createdAt'', b ''created_at''),
      (''updatedAt'', b ''updated_at'')]"

text \<open>
  The text \<open>csv-writer\<close> puts in a cell: nothing for \<open>null\<close> and \<open>undefined\<close>,
  \<open>String(value)\<close> otherwise.  The text of a \<open>Date\<close> is not modelled: the header has
  no timestamp column, so no date reaches a cell.
\<close>

fun csv_text :: "jsval \<Rightarrow> string" where
  "csv_text JUndefined = []"
| "csv_text JNull = []"
| "csv_text (JStr s) = s"
| "csv_text (JNum n) = (if n < 0 then CHR ''-'' # decimal (nat (- n)) else decimal (nat n))"
| "csv_text JNaN = ''NaN''"
| "csv_text (JBool b) = (if b then ''true'' else ''false'')"
| "csv_text (JArr ts) = join '','' ts"
| "csv_text (JDate t) = []"

text \<open>
  One record of the file, as \<open>csv-parser\<close> reads it back: the header's columns, which
  are the keys of \<open>buyer_keys\<close>.  Quoting and parsing of the bytes are the two
  libraries' business; a cell is taken to come back as it was written.
\<close>

definition export_record :: "js_object \<Rightarrow> csv_row" where
  "export_record record = map (\<lambda>key. (key, csv_text (get record key))) buyer_keys"

definition exportLeads :: "db_row list \<Rightarrow> csv_row list" where
  "exportLeads result_rows = map (\<lambda>b. export_record (export_select b)) result_rows"

section \<open>GET /api/buyers\<close>

text \<open>
  \<open>z.coerce.number().int().min(lo).max(hi)\<close>.  The coercion \<open>Number(v)\<close> is the
  engine's; the model takes as a parameter \<open>to_integer\<close>, which gives the integer that
  \<open>Number(v)\<close> is, if it is one.
\<close>

definition coerced_int :: "(jsval \<Rightarrow> int option) \<Rightarrow> int \<Rightarrow> int option \<Rightarrow> schema" where
  "coerced_int to_integer lo hi v =
     (case to_integer v of
        None \<Rightarrow> [Issue invalid_type [] None]
      | Some n \<Rightarrow>
          (if n < lo then [Issue too_small [] None] else []) @
          (case hi of
             Some h \<Rightarrow> if h < n then [Issue too_big [] None] else []
           | None \<Rightarrow> []))"

definition sort_keys :: "string list" where
  "sort_keys = [''updatedAt'', ''fullName'', ''createdAt'']"

definition filters_shape :: "(jsval \<Rightarrow> int option) \<Rightarrow> (string \<times> schema) list" where
  "filters_shape to_integer =
     [(''city'', z_or (z_optional (z_enum CityEnum)) (z_literal [])),
      (''propertyType'', z_or (z_optional (z_enum PropertyTypeEnum)) (z_literal [])),
      (''status'', z_or (z_optional (z_enum StatusEnum)) (z_literal [])),
      (''timeline'', z_or (z_optional (z_enum TimelineEnum)) (z_literal [])),
      (''search'', z_or (z_optional (z_string (\<lambda>s. []))) (z_literal [])),
      (''page'', z_default (z_or (coerced_int to_integer 1 None) (z_literal []))),
      (''limit'', z_default (z_or (coerced_int to_integer 1 (Some 100)) (z_literal []))),
      (''sortBy'', z_default (z_or (z_enum sort_keys) (z_literal []))),
      (''sortOrder'', z_default (z_or (z_enum [''asc'', ''desc'']) (z_literal [])))]"

definition filtersSchema :: "(jsval \<Rightarrow> int option) \<Rightarrow> js_object \<Rightarrow> issue list" where
  "filtersSchema to_integer = parse_shape (filters_shape to_integer)"

text \<open>
  The value a union of a coerced number and the literal \<open>""\<close> returns: the number when
  the first branch passes, the input (\<open>""\<close>) when only the second does.
\<close>

definition number_or_empty :: "(jsval \<Rightarrow> int option) \<Rightarrow> int \<Rightarrow> int option \<Rightarrow> int \<Rightarrow> jsval \<Rightarrow> jsval" where
  "number_or_empty to_integer lo hi dflt v =
     (if v = JUndefined then JNum dflt
      else if coerced_int to_integer lo hi v = [] then JNum (the (to_integer v))
      else v)"

definition or_default :: "jsval \<Rightarrow> jsval \<Rightarrow> jsval" where
  "or_default dflt v = (if v = JUndefined then dflt else v)"

text \<open>The fields of \<open>filtersSchema.parse(req.query)\<close> for a query that passes.\<close>

record filters =
  city :: jsval
  propertyType :: jsval
  status :: jsval
  timeline :: jsval
  search :: jsval
  page :: jsval
  limit :: jsval
  sortBy :: jsval
  sortOrder :: jsval

definition filters_output :: "(jsval \<Rightarrow> int option) \<Rightarrow> js_object \<Rightarrow> filters" where
  "filters_output to_integer input =
     \<lparr>city = get input ''city'',
      propertyType = get input ''propertyType'',
      status = get input ''status'',
      timeline = get input ''timeline'',
      search = get input ''search'',
      page = number_or_empty to_integer 1 None 1 (get input ''page''),
      limit = number_or_empty to_integer 1 (Some 100) 10 (get input ''limit''),
      sortBy = or_default (JStr ''updatedAt'') (get input ''sortBy''),
      sortOrder = or_default (JStr ''desc'') (get input ''sortOrder'')\<rparr>"

definition validSortColumns :: "(string \<times> string) list" where
  "validSortColumns =
     [(''updatedAt'', ''b.updated_at''),
      (''fullName'', ''b.full_name''),
      (''createdAt'', ''b.created_at'')]"

definition toUpperCase :: "string \<Rightarrow> string" where
  "toUpperCase s =
     map (\<lambda>c. if 97 \<le> (of_char c :: nat) \<and> (of_char c :: nat) \<le> 122
               then char_of ((of_char c :: nat) - 32) else c) s"

text \<open>
  The statement the handler builds.  \<open>order_by\<close> is the text interpolated after
  \<open>ORDER BY\<close>: a column of \<open>validSortColumns\<close>, or \<open>None\<close> when the lookup finds
  none and the clause reads \<open>ORDER BY undefined\<close>.
\<close>

record list_query =
  conditions :: "(string \<times> jsval) list"
  search_pattern :: "string option"
  order_by :: "string option"
  direction :: string
  limit_arg :: jsval
  offset_arg :: jsval

text \<open>\<open>(page - 1) * limit\<close> on the values the schema returns: a number or \<open>""\<close>.\<close>

fun offset_of :: "jsval \<Rightarrow> jsval \<Rightarrow> jsval" where
  "offset_of (JNum p) (JNum l) = JNum ((p - 1) * l)"
| "offset_of (JStr s) (JNum l) = (if s = [] then JNum (- l) else JNaN)"
| "offset_of (JNum p) (JStr s) = (if s = [] then JNum 0 else JNaN)"
| "offset_of (JStr s) (JStr t) = (if s = [] \<and> t = [] then JNum 0 else JNaN)"
| "offset_of a b = JNaN"

definition condition :: "string \<Rightarrow> jsval \<Rightarrow> (string \<times> jsval) list" where
  "condition column v = (if truthy v then [(column, v)] else [])"

definition build_query :: "filters \<Rightarrow> list_query" where
  "build_query f =
     \<lparr>conditions =
        condition ''b.city'' (city f) @ condition ''b.property_type'' (propertyType f) @
        condition ''b.status'' (status f) @ condition ''b.timeline'' (timeline f),
      search_pattern =
        (case search f of
           JStr s \<Rightarrow> if s \<noteq> [] then Some (''%'' @ s @ ''%'') else None
         | _ \<Rightarrow> None),
      order_by = (case sortBy f of JStr s \<Rightarrow> map_of validSortColumns s | _ \<Rightarrow> None),
      direction = (case sortOrder f of JStr s \<Rightarrow> toUpperCase s | _ \<Rightarrow> []),
      limit_arg = limit f,
      offset_arg = offset_of (page f) (limit f)\<rparr>"

text \<open>
  What the store runs: the \<open>ORDER BY\<close> text must name a column, \<open>LIMIT\<close> and
  \<open>OFFSET\<close> must be integers that are not negative.  Anything else raises.
\<close>

definition store_accepts :: "list_query \<Rightarrow> bool" where
  "store_accepts q =
     (order_by q \<noteq> None \<and>
      (case limit_arg q of JNum l \<Rightarrow> 0 \<le> l | _ \<Rightarrow> False) \<and>
      (case offset_arg q of JNum off \<Rightarrow> 0 \<le> off | _ \<Rightarrow> False))"

datatype list_response = ListOk list_query | ListError

text \<open>
  The handler up to the query it runs.  Every exception, the \<open>ZodError\<close> of the filter
  schema included, is answered with 500; the rows the store returns for a query it runs
  are not modelled.
\<close>

definition listLeads :: "(jsval \<Rightarrow> int option) \<Rightarrow> js_object \<Rightarrow> list_response" where
  "listLeads to_integer query_params =
     (if filtersSchema to_integer query_params \<noteq> [] then ListError
      else
        (let q = build_query (filters_output to_integer query_params) in
         if store_accepts q then ListOk q else ListError))"

section \<open>Example data\<close>

text \<open>A lead of the seed script, its owner, another user, and two instants.\<close>

definition example_lead :: db_row where
  "example_lead = (\<lambda>c. JUndefined)
     (''full_name'' := JStr ''Amit Singh'', ''email'' := JNull, ''phone'' := JStr ''9876543212'',
      ''city'' := JStr ''Zirakpur'', ''property_type'' := JStr ''Plot'', ''bhk'' := JNull,
      ''purpose'' := JStr ''Buy'', ''budget_min'' := JNum 2000000, ''budget_max'' := JNum 3000000,
      ''timeline'' := JStr ''3-6m'', ''source'' := JStr ''Call'', ''status'' := JStr ''New'',
      ''notes'' := JStr ''plot'', ''tags'' := JArr [''investment''],
      ''owner_id'' := JStr ''u1'', ''created_at'' := JDate 1000, ''updated_at'' := JDate 1000)"

definition example_store :: store where
  "example_store = \<lparr>buyers = [(7, example_lead)], buyer_history = [], next_id = 8\<rparr>"

definition owner_u1 :: user where
  "owner_u1 = \<lparr>user_id = ''u1'', role = ''user''\<rparr>"

definition other_u2 :: user where
  "other_u2 = \<lparr>user_id = ''u2'', role = ''user''\<rparr>"

definition example_clock :: "string \<Rightarrow> int option" where
  "example_clock s = (if s = ''1970-01-01T00:00:01.000Z'' then Some 1000
                      else if s = ''1970-01-01T00:00:02.000Z'' then Some 2000 else None)"

text \<open>
  Two request bodies for the example lead: one repeats its notes, the other repeats its
  status, notes and tags.
\<close>

definition notes_again_body :: js_object where
  "notes_again_body = [(''notes'', JStr ''plot'')]"

definition same_values_body :: js_object where
  "same_values_body =
     [(''status'', JStr ''New''), (''notes'', JStr ''plot''), (''tags'', JArr [''investment''])]"

text \<open>A full candidate for \<open>buyerSchema\<close> with a zero upper budget bound.\<close>

definition zero_max_candidate :: js_object where
  "zero_max_candidate =
     [(''fullName'', JStr ''Rajesh Kumar''),
      (''phone'', JStr ''9876543210''),
      (''city'', JStr ''Chandigarh''),
      (''propertyType'', JStr ''Apartment''),
      (''bhk'', JStr ''3''),
      (''purpose'', JStr ''Buy''),
      (''budgetMin'', JNum 5000000),
      (''budgetMax'', JNum 0),
      (''timeline'', JStr ''0-3m''),
      (''source'', JStr ''Website'')]"

text \<open>Two rows of an import file: one that passes, one for an apartment without \<open>bhk\<close>.\<close>

definition good_csv_row :: csv_row where
  "good_csv_row =
     [(''fullName'', ''John Doe''), (''email'', []), (''phone'', ''9876543210''),
      (''city'', ''Chandigarh''), (''propertyType'', ''Apartment''), (''bhk'', ''3''),
      (''purpose'', ''Buy''), (''budgetMin'', ''5000000''), (''budgetMax'', ''7000000''),
      (''timeline'', ''0-3m''), (''source'', ''Website''), (''notes'', ''Looking for 3BHK''),
      (''tags'', ''urgent,family''), (''status'', ''New'')]"

definition no_bhk_csv_row :: csv_row where
  "no_bhk_csv_row =
     [(''fullName'', ''Jane Roe''), (''email'', []), (''phone'', ''9876543211''),
      (''city'', ''Mohali''), (''propertyType'', ''Apartment''),
      (''purpose'', ''Rent''), (''budgetMin'', []), (''budgetMax'', []),
      (''timeline'', ''3-6m''), (''source'', ''Call''), (''notes'', []),
      (''tags'', []), (''status'', ''New'')]"

section \<open>Leads that survive export and import\<close>

text \<open>The fourteen columns that hold a lead's own data.\<close>

definition domain_columns :: "string list" where
  "domain_columns =
     [''full_name'', ''email'', ''phone'', ''city'', ''property_type'', ''bhk'', ''purpose'',
      ''budget_min'', ''budget_max'', ''timeline'', ''source'', ''status'', ''notes'', ''tags'']"

text \<open>
  The leads for which the round trip is claimed: a row the table accepts, with
  \<open>bhk\<close> and \<open>status\<close> set, an email that is \<open>NULL\<close> or non-empty and well formed,
  notes that are not the empty string, budget bounds that are not zero, and tags that
  are non-empty, free of commas and of surrounding white space.
\<close>

definition reimportable :: "(string \<Rightarrow> bool) \<Rightarrow> db_row \<Rightarrow> bool" where
  "reimportable is_email b =
     (buyers_constraints b \<and>
      b ''bhk'' \<noteq> JNull \<and>
      b ''status'' \<noteq> JNull \<and>
      (case b ''email'' of JNull \<Rightarrow> True | JStr e \<Rightarrow> e \<noteq> [] \<and> is_email e | _ \<Rightarrow> False) \<and>
      b ''notes'' \<noteq> JStr [] \<and>
      b ''budget_min'' \<noteq> JNum 0 \<and>
      b ''budget_max'' \<noteq> JNum 0 \<and>
      (case b ''tags'' of
         JArr ts \<Rightarrow> list_all (\<lambda>t. t \<noteq> [] \<and> CHR '','' \<notin> set t \<and> trim t = t) ts
       | _ \<Rightarrow> False))"

text \<open>A lead with a bedroom count and two clean tags, and one whose tag holds a comma.\<close>

definition villa_lead :: db_row where
  "villa_lead = (\<lambda>c. JUndefined)
     (''full_name'' := JStr ''Priya Sharma'', ''email'' := JNull, ''phone'' := JStr ''9876543211'',
      ''city'' := JStr ''Mohali'', ''property_type'' := JStr ''Villa'', ''bhk'' := JStr ''4'',
      ''purpose'' := JStr ''Buy'', ''budget_min'' := JNum 8000000, ''budget_max'' := JNull,
      ''timeline'' := JStr ''3-6m'', ''source'' := JStr ''Referral'', ''status'' := JStr ''Qualified'',
      ''notes'' := JNull, ''tags'' := JArr [''premium'', ''garden''],
      ''owner_id'' := JStr ''u1'', ''created_at'' := JDate 1000, ''updated_at'' := JDate 1000)"

definition comma_tag_lead :: db_row where
  "comma_tag_lead = villa_lead(''tags'' := JArr [''sea view, garden''])"

section \<open>Properties of the update handler\<close>

lemmas constraint_defs = buyers_constraints_def varchar_def nullable_def col_in_def
  int4_nonneg_def budget_check_def bhk_required_check_def phone_regex_def is_digit_def
  CityEnum_def PropertyTypeEnum_def BHKEnum_def PurposeEnum_def TimelineEnum_def
  SourceEnum_def StatusEnum_def

lemma fieldMapping_get_Column:
  "fieldMapping_get key = Some (Column c) \<Longrightarrow> c \<in> snd ` set fieldMapping"
  unfolding fieldMapping_get_def
  by (auto split: option.splits if_splits dest!: map_of_SomeD
      intro!: image_eqI[where x="(key, c)"])

text \<open>Every target the loop collects comes out of \<open>fieldMapping\<close>.\<close>

lemma update_loop_targets:
  assumes "fst ` set (fst acc) \<subseteq> S"
    and "Inherited \<in> S" and "Column ` snd ` set fieldMapping \<subseteq> S"
  shows "fst ` set (fst (update_loop cur vd acc)) \<subseteq> S"
  using assms
proof (induction cur vd acc rule: update_loop.induct)
  case (1 currentBuyer acc)
  then show ?case by simp
next
  case (2 currentBuyer key val rest updates chs)
  show ?case
  proof (cases "key = ''updatedAt''")
    case True
    with 2 show ?thesis by simp
  next
    case notTok: False
    show ?thesis
    proof (cases "fieldMapping_get key")
      case None
      with 2 notTok show ?thesis by simp
    next
      case (Some dbField)
      have tgt: "dbField \<in> S"
      proof (cases dbField)
        case (Column c)
        with Some have "c \<in> snd ` set fieldMapping" by (simp add: fieldMapping_get_Column)
        with Column "2.prems"(3) show ?thesis by auto
      next
        case Inherited
        with "2.prems"(2) show ?thesis by simp
      qed
      show ?thesis
      proof (cases "val = JUndefined")
        case True
        with 2 notTok Some show ?thesis by simp
      next
        case False
        have "fst ` set (fst (updates @ [(dbField, if val = JStr [] then JNull else val)],
                 if strict_neq (row_get currentBuyer dbField) val
                 then obj_set chs key (row_get currentBuyer dbField, val) else chs)) \<subseteq> S"
          using "2.prems"(1) tgt by auto
        from "2.IH"(4)[OF notTok Some False this "2.prems"(2,3)] notTok Some False
        show ?thesis by simp
      qed
    qed
  qed
qed

lemma update_loop_no_owner:
  "Column ''owner_id'' \<notin> fst ` set (fst (update_loop cur vd ([], [])))"
proof -
  let ?S = "insert Inherited (Column ` snd ` set fieldMapping)"
  have "fst ` set (fst (update_loop cur vd ([], []))) \<subseteq> ?S"
    by (rule update_loop_targets) auto
  moreover have "Column ''owner_id'' \<notin> ?S"
    by (simp add: fieldMapping_def image_iff)
  ultimately show ?thesis by blast
qed

lemma fold_assign_other:
  "Column c \<notin> fst ` set sets \<Longrightarrow> fold assign sets r c = r c"
proof (induction sets arbitrary: r)
  case Nil
  then show ?case by simp
next
  case (Cons a sets)
  obtain f v where a: "a = (f, v)" by (cases a)
  from Cons.prems a have "f \<noteq> Column c" and rest: "Column c \<notin> fst ` set sets" by auto
  then have "assign (f, v) r c = r c" by (cases f) auto
  with Cons.IH[OF rest, of "assign (f, v) r"] a show ?case by simp
qed

lemma update_buyers_owner:
  assumes "update_buyers now lid sets st = Some (rows, st')"
    and "Column ''owner_id'' \<notin> fst ` set sets"
  shows "map (\<lambda>(i, r). (i, r ''owner_id'')) (buyers st') =
         map (\<lambda>(i, r). (i, r ''owner_id'')) (buyers st)"
proof -
  let ?upd = "\<lambda>r. (fold assign sets r)(''updated_at'' := JDate now)"
  have st': "buyers st' = map (\<lambda>(i, r). if i = lid then (i, ?upd r) else (i, r)) (buyers st)"
    using assms(1) by (auto simp: update_buyers_def Let_def split: if_splits)
  have "?upd r ''owner_id'' = r ''owner_id''" for r
    using fold_assign_other[OF assms(2)] by simp
  then show ?thesis unfolding st' by (auto simp: case_prod_beta)
qed

lemma buyers_recordHistory [simp]: "buyers (recordHistory b c d st) = buyers st"
  by (simp add: recordHistory_def)

lemma apply_update_owner:
  "map (\<lambda>(i, r). (i, r ''owner_id'')) (buyers (snd (apply_update now u lid cur vd st))) =
   map (\<lambda>(i, r). (i, r ''owner_id'')) (buyers st)"
proof (cases "update_loop cur vd ([], [])")
  case (Pair updates chs)
  have no: "Column ''owner_id'' \<notin> fst ` set updates"
    using update_loop_no_owner[of cur vd] Pair by simp
  show ?thesis
  proof (cases "update_buyers now lid updates st")
    case None
    with Pair show ?thesis by (simp add: apply_update_def)
  next
    case (Some res)
    obtain rows st' where res: "res = (rows, st')" by (cases res)
    from update_buyers_owner[OF Some[unfolded res] no] Pair Some res
    show ?thesis by (simp add: apply_update_def)
  qed
qed

lemma apply_update_failure:
  "apply_update now u lid cur vd st = (resp, st') \<Longrightarrow> \<forall>rows. resp \<noteq> Ok rows \<Longrightarrow> st' = st"
  by (auto simp: apply_update_def split: prod.splits option.splits if_splits)

lemma apply_update_no_conflict: "fst (apply_update now u lid cur vd st) \<noteq> Conflict c"
  by (simp add: apply_update_def split: prod.splits option.splits)

subsection \<open>The example lead, evaluated\<close>

lemma example_found: "map_of (buyers example_store) 7 = Some example_lead"
  by (simp add: example_store_def)

lemma example_owner: "example_lead ''owner_id'' = JStr ''u1''"
  by (simp add: example_lead_def)

lemma example_updated_at: "example_lead ''updated_at'' = JDate 1000"
  by (simp add: example_lead_def)

lemma example_loop_notes:
  "update_loop example_lead [(''notes'', JStr ''call'')] ([], []) =
     ([(Column ''notes'', JStr ''call'')], [(''notes'', JStr ''plot'', JStr ''call'')])"
  by (simp add: fieldMapping_get_def fieldMapping_def example_lead_def)

lemma example_loop_notes_token:
  "update_loop example_lead [(''notes'', JStr ''call''), (''updatedAt'', t)] ([], []) =
     ([(Column ''notes'', JStr ''call'')], [(''notes'', JStr ''plot'', JStr ''call'')])"
  by (simp add: fieldMapping_get_def fieldMapping_def example_lead_def)

lemma example_notes_accepted:
  "buyers_constraints (example_lead(''notes'' := JStr ''call'', ''updated_at'' := JDate 5000))"
  by (simp add: example_lead_def constraint_defs)

lemma example_update_notes:
  "update_buyers 5000 7 [(Column ''notes'', JStr ''call'')] example_store =
     Some ([example_lead(''notes'' := JStr ''call'', ''updated_at'' := JDate 5000)],
           \<lparr>buyers = [(7, example_lead(''notes'' := JStr ''call'', ''updated_at'' := JDate 5000))],
            buyer_history = [], next_id = 8\<rparr>)"
  by (simp add: update_buyers_def example_store_def example_notes_accepted)

lemma example_apply_notes:
  "apply_update 5000 owner_u1 7 example_lead [(''notes'', JStr ''call'')] example_store =
     (Ok (Some (example_lead(''notes'' := JStr ''call'', ''updated_at'' := JDate 5000))),
      \<lparr>buyers = [(7, example_lead(''notes'' := JStr ''call'', ''updated_at'' := JDate 5000))],
       buyer_history = [\<lparr>buyer_id = 7, changed_by = ''u1'',
                          diff = Updated [(''notes'', JStr ''plot'', JStr ''call'')]\<rparr>],
       next_id = 8\<rparr>)"
  unfolding apply_update_def example_loop_notes
  by (simp add: example_update_notes recordHistory_def owner_u1_def)

lemma example_apply_notes_token:
  "apply_update 5000 owner_u1 7 example_lead [(''notes'', JStr ''call''), (''updatedAt'', t)]
     example_store =
     (Ok (Some (example_lead(''notes'' := JStr ''call'', ''updated_at'' := JDate 5000))),
      \<lparr>buyers = [(7, example_lead(''notes'' := JStr ''call'', ''updated_at'' := JDate 5000))],
       buyer_history = [\<lparr>buyer_id = 7, changed_by = ''u1'',
                          diff = Updated [(''notes'', JStr ''plot'', JStr ''call'')]\<rparr>],
       next_id = 8\<rparr>)"
  unfolding apply_update_def example_loop_notes_token
  by (simp add: example_update_notes recordHistory_def owner_u1_def)

subsection \<open>Optimistic concurrency\<close>

text \<open>
  Claim C2.  Take an update that has passed validation, found its lead and passed the
  ownership check.  If the validated payload carries an \<open>updatedAt\<close> token, the token
  and the lead's \<open>updated_at\<close> are compared as instants (\<open>getTime()\<close> of both, not
  their text): when they differ the answer is Conflict with the lead's current
  \<open>updated_at\<close> and the store is left as it was; when they agree, and when the
  payload has no token, the handler goes on to the update itself, which never answers
  Conflict.
\<close>

theorem updateLead_concurrency:
  assumes "map_of (buyers st) lid = Some currentBuyer"
    and "checkOwnership u (currentBuyer ''owner_id'')"
  shows "(get validatedData ''updatedAt'' = JStr token \<and> token \<noteq> [] \<and>
            time_neq (date_parse token) (new_Date date_parse (currentBuyer ''updated_at'')) \<longrightarrow>
          updateLead date_parse now u lid (Inr validatedData) st =
            (Conflict (currentBuyer ''updated_at''), st)) \<and>
         (get validatedData ''updatedAt'' = JStr token \<and>
            \<not> time_neq (date_parse token) (new_Date date_parse (currentBuyer ''updated_at'')) \<longrightarrow>
          updateLead date_parse now u lid (Inr validatedData) st =
            apply_update now u lid currentBuyer validatedData st) \<and>
         (get validatedData ''updatedAt'' = JUndefined \<longrightarrow>
          updateLead date_parse now u lid (Inr validatedData) st =
            apply_update now u lid currentBuyer validatedData st) \<and>
         (\<forall>c. fst (apply_update now u lid currentBuyer validatedData st) \<noteq> Conflict c)"
  using assms by (simp add: updateLead_def apply_update_no_conflict)

theorem updateLead_concurrency_witness:
  "updateLead example_clock 5000 owner_u1 7
     (Inr [(''notes'', JStr ''call''), (''updatedAt'', JStr ''1970-01-01T00:00:02.000Z'')])
     example_store = (Conflict (JDate 1000), example_store) \<and>
   buyer_history (snd (updateLead example_clock 5000 owner_u1 7
     (Inr [(''notes'', JStr ''call''), (''updatedAt'', JStr ''1970-01-01T00:00:01.000Z'')])
     example_store)) =
     [\<lparr>buyer_id = 7, changed_by = ''u1'',
       diff = Updated [(''notes'', JStr ''plot'', JStr ''call'')]\<rparr>] \<and>
   buyer_history (snd (updateLead example_clock 5000 owner_u1 7
     (Inr [(''notes'', JStr ''call'')]) example_store)) =
     [\<lparr>buyer_id = 7, changed_by = ''u1'',
       diff = Updated [(''notes'', JStr ''plot'', JStr ''call'')]\<rparr>]"
proof -
  have own: "checkOwnership owner_u1 (example_lead ''owner_id'')"
    by (simp add: checkOwnership_def example_owner owner_u1_def)
  show ?thesis
    using updateLead_concurrency[OF example_found own,
        of "[(''notes'', JStr ''call''), (''updatedAt'', JStr ''1970-01-01T00:00:02.000Z'')]"
           "''1970-01-01T00:00:02.000Z''" example_clock 5000]
      updateLead_concurrency[OF example_found own,
        of "[(''notes'', JStr ''call''), (''updatedAt'', JStr ''1970-01-01T00:00:01.000Z'')]"
           "''1970-01-01T00:00:01.000Z''" example_clock 5000]
      updateLead_concurrency[OF example_found own,
        of "[(''notes'', JStr ''call'')]" "[]" example_clock 5000]
    by (simp add: get_def example_clock_def example_updated_at example_apply_notes
        example_apply_notes_token)
qed

subsection \<open>Owner immutability\<close>

text \<open>
  Claim C9.  Whatever the parsed payload holds (any keys, any values) and whatever the
  outcome, the update handler leaves the \<open>owner_id\<close> of every lead in the table as it
  was: no key is mapped to that column, and the statement writes mapped columns and
  \<open>updated_at\<close> only.
\<close>

theorem updateLead_never_writes_owner:
  "map (\<lambda>(i, r). (i, r ''owner_id'')) (buyers (snd (updateLead date_parse now u lid parsed st))) =
   map (\<lambda>(i, r). (i, r ''owner_id'')) (buyers st)"
  by (simp add: updateLead_def apply_update_owner split: sum.splits option.splits)

theorem updateLead_never_writes_owner_witness:
  "fst (updateLead example_clock 5000 owner_u1 7
     (Inr [(''notes'', JStr ''call''), (''owner_id'', JStr ''u2''), (''ownerId'', JStr ''u2'')])
     example_store) =
     Ok (Some (example_lead(''notes'' := JStr ''call'', ''updated_at'' := JDate 5000))) \<and>
   map (\<lambda>(i, r). (i, r ''owner_id'')) (buyers (snd (updateLead example_clock 5000 owner_u1 7
     (Inr [(''notes'', JStr ''call''), (''owner_id'', JStr ''u2''), (''ownerId'', JStr ''u2'')])
     example_store))) = [(7, JStr ''u1'')]"
proof -
  let ?vd = "[(''notes'', JStr ''call''), (''owner_id'', JStr ''u2''), (''ownerId'', JStr ''u2'')]"
  have loop: "update_loop example_lead ?vd ([], []) =
     ([(Column ''notes'', JStr ''call'')], [(''notes'', JStr ''plot'', JStr ''call'')])"
    by (simp add: fieldMapping_get_def fieldMapping_def Object_prototype_def example_lead_def)
  have "fst (apply_update 5000 owner_u1 7 example_lead ?vd example_store) =
     Ok (Some (example_lead(''notes'' := JStr ''call'', ''updated_at'' := JDate 5000)))"
    unfolding apply_update_def loop by (simp add: example_update_notes)
  then have "fst (updateLead example_clock 5000 owner_u1 7 (Inr ?vd) example_store) =
     Ok (Some (example_lead(''notes'' := JStr ''call'', ''updated_at'' := JDate 5000)))"
    by (simp add: updateLead_def example_found checkOwnership_def example_owner owner_u1_def
        get_def)
  then show ?thesis
    using updateLead_never_writes_owner[of example_clock 5000 owner_u1 7 "Inr ?vd" example_store]
    by (simp add: example_store_def example_owner)
qed

subsection \<open>Failed updates write nothing\<close>

text \<open>
  Claim C10.  Every call of the update handler that does not answer with the updated
  lead (validation failure, NotFound, Forbidden, Conflict, BadRequest for a payload with
  no mapped field, or the store refusing the statement) returns the store it was given:
  no lead and no history row has been written.
\<close>

theorem updateLead_failure_writes_nothing:
  assumes "updateLead date_parse now u lid parsed st = (resp, st')"
    and "\<forall>rows. resp \<noteq> Ok rows"
  shows "st' = st"
  using assms
  by (auto simp: updateLead_def split: sum.splits option.splits if_splits
      dest: apply_update_failure)

theorem updateLead_failure_writes_nothing_witness:
  "updateLead example_clock 5000 owner_u1 7
     (Inl [Issue invalid_value [''city''] None]) example_store =
     (ValidationFailed [Issue invalid_value [''city''] None], example_store) \<and>
   updateLead example_clock 5000 owner_u1 9 (Inr [(''notes'', JStr ''call'')]) example_store =
     (NotFound, example_store) \<and>
   updateLead example_clock 5000 other_u2 7 (Inr [(''notes'', JStr ''call'')]) example_store =
     (Forbidden, example_store) \<and>
   updateLead example_clock 5000 owner_u1 7
     (Inr [(''notes'', JStr ''call''), (''updatedAt'', JStr ''1970-01-01T00:00:02.000Z'')])
     example_store = (Conflict (JDate 1000), example_store) \<and>
   updateLead example_clock 5000 owner_u1 7 (Inr []) example_store =
     (BadRequest ''No valid fields to update'', example_store) \<and>
   updateLead example_clock 5000 owner_u1 7 (Inr [(''propertyType'', JStr ''Villa'')])
     example_store = (InternalError, example_store)"
proof -
  have own: "checkOwnership owner_u1 (JStr ''u1'')" and other: "\<not> checkOwnership other_u2 (JStr ''u1'')"
    by (simp_all add: checkOwnership_def owner_u1_def other_u2_def)
  have r1: "fst (updateLead example_clock 5000 owner_u1 7
      (Inl [Issue invalid_value [''city''] None]) example_store) =
      ValidationFailed [Issue invalid_value [''city''] None]"
    by (simp add: updateLead_def)
  have r2: "fst (updateLead example_clock 5000 owner_u1 9 (Inr [(''notes'', JStr ''call'')])
      example_store) = NotFound"
    by (simp add: updateLead_def example_store_def)
  have r3: "fst (updateLead example_clock 5000 other_u2 7 (Inr [(''notes'', JStr ''call'')])
      example_store) = Forbidden"
    by (simp add: updateLead_def example_found example_owner other)
  have r4: "fst (updateLead example_clock 5000 owner_u1 7
      (Inr [(''notes'', JStr ''call''), (''updatedAt'', JStr ''1970-01-01T00:00:02.000Z'')])
      example_store) = Conflict (JDate 1000)"
    by (simp add: updateLead_def example_found example_owner own get_def example_clock_def
        example_updated_at)
  have r5: "fst (updateLead example_clock 5000 owner_u1 7 (Inr []) example_store) =
      BadRequest ''No valid fields to update''"
    by (simp add: updateLead_def example_found example_owner own get_def apply_update_def)
  have loop: "update_loop example_lead [(''propertyType'', JStr ''Villa'')] ([], []) =
      ([(Column ''property_type'', JStr ''Villa'')],
       [(''propertyType'', JStr ''Plot'', JStr ''Villa'')])"
    by (simp add: fieldMapping_get_def fieldMapping_def example_lead_def)
  have refused: "\<not> buyers_constraints
      (example_lead(''property_type'' := JStr ''Villa'', ''updated_at'' := JDate 5000))"
    by (simp add: example_lead_def buyers_constraints_def bhk_required_check_def)
  have "apply_update 5000 owner_u1 7 example_lead [(''propertyType'', JStr ''Villa'')] example_store
      = (InternalError, example_store)"
    unfolding apply_update_def loop
    by (simp add: update_buyers_def example_store_def refused)
  then have r6: "fst (updateLead example_clock 5000 owner_u1 7
      (Inr [(''propertyType'', JStr ''Villa'')]) example_store) = InternalError"
    by (simp add: updateLead_def example_found example_owner own get_def)
  show ?thesis
    using updateLead_failure_writes_nothing[OF surjective_pairing, of example_clock 5000 owner_u1 7
        "Inl [Issue invalid_value [''city''] None]" example_store]
      updateLead_failure_writes_nothing[OF surjective_pairing, of example_clock 5000 owner_u1 9
        "Inr [(''notes'', JStr ''call'')]" example_store]
      updateLead_failure_writes_nothing[OF surjective_pairing, of example_clock 5000 other_u2 7
        "Inr [(''notes'', JStr ''call'')]" example_store]
      updateLead_failure_writes_nothing[OF surjective_pairing, of example_clock 5000 owner_u1 7
        "Inr [(''notes'', JStr ''call''), (''updatedAt'', JStr ''1970-01-01T00:00:02.000Z'')]"
        example_store]
      updateLead_failure_writes_nothing[OF surjective_pairing, of example_clock 5000 owner_u1 7
        "Inr []" example_store]
      updateLead_failure_writes_nothing[OF surjective_pairing, of example_clock 5000 owner_u1 7
        "Inr [(''propertyType'', JStr ''Villa'')]" example_store]
    by (simp add: r1 r2 r3 r4 r5 r6 prod_eq_iff)
qed

subsection \<open>The loop, characterised\<close>

lemma update_loop_updates:
  "fst (update_loop cur vd (ups, chs)) =
     ups @ List.map_filter (\<lambda>(key, val).
       if key = ''updatedAt'' \<or> val = JUndefined then None
       else map_option (\<lambda>f. (f, if val = JStr [] then JNull else val)) (fieldMapping_get key)) vd"
proof (induction vd arbitrary: ups chs)
  case Nil
  then show ?case by (simp add: List.map_filter_simps)
next
  case (Cons e vd)
  obtain key val where e: "e = (key, val)" by (cases e)
  show ?case
    unfolding e
    by (cases "fieldMapping_get key") (simp_all add: Cons.IH List.map_filter_simps)
qed

lemma map_of_inj:
  "distinct (map snd xs) \<Longrightarrow> map_of xs a = Some c \<Longrightarrow> map_of xs b = Some c \<Longrightarrow> a = b"
proof (induction xs)
  case Nil
  then show ?case by simp
next
  case (Cons x xs)
  obtain k v where x: "x = (k, v)" by (cases x)
  from Cons.prems(1) x have notin: "v \<notin> snd ` set xs" and d: "distinct (map snd xs)" by auto
  have no: "map_of xs y \<noteq> Some v" for y
    using notin by (metis map_of_SomeD snd_conv image_eqI)
  show ?case
    using Cons.IH[OF d] Cons.prems(2,3) x no by (auto split: if_splits)
qed

lemma fieldMapping_get_inj:
  "fieldMapping_get a = Some (Column c) \<Longrightarrow> fieldMapping_get b = Some (Column c) \<Longrightarrow> a = b"
proof -
  assume a: "fieldMapping_get a = Some (Column c)" and b: "fieldMapping_get b = Some (Column c)"
  have d: "distinct (map snd fieldMapping)" by (simp add: fieldMapping_def)
  from a have "map_of fieldMapping a = Some c"
    by (auto simp: fieldMapping_get_def split: option.splits if_splits)
  moreover from b have "map_of fieldMapping b = Some c"
    by (auto simp: fieldMapping_get_def split: option.splits if_splits)
  ultimately show ?thesis using map_of_inj[OF d] by blast
qed


lemma constraints_updated_at:
  "buyers_constraints (r(''updated_at'' := t)) = buyers_constraints r"
  by (simp add: buyers_constraints_def budget_check_def bhk_required_check_def)

lemma buyers_constraintsD:
  assumes "buyers_constraints r"
  shows "varchar 80 (r ''full_name'')"
    and "case r ''full_name'' of JStr s \<Rightarrow> 2 \<le> length s | _ \<Rightarrow> False"
    and "nullable (varchar 255) (r ''email'')"
    and "varchar 15 (r ''phone'')"
    and "case r ''phone'' of JStr s \<Rightarrow> phone_regex s | _ \<Rightarrow> False"
    and "col_in CityEnum (r ''city'')"
    and "col_in PropertyTypeEnum (r ''property_type'')"
    and "nullable (col_in BHKEnum) (r ''bhk'')"
    and "col_in PurposeEnum (r ''purpose'')"
    and "nullable int4_nonneg (r ''budget_min'')"
    and "nullable int4_nonneg (r ''budget_max'')"
    and "col_in TimelineEnum (r ''timeline'')"
    and "col_in SourceEnum (r ''source'')"
    and "nullable (col_in StatusEnum) (r ''status'')"
    and "nullable (\<lambda>v. case v of JStr s \<Rightarrow> length s \<le> 1000 | _ \<Rightarrow> False) (r ''notes'')"
    and "nullable (\<lambda>v. case v of JArr ts \<Rightarrow> True | _ \<Rightarrow> False) (r ''tags'')"
    and "case r ''owner_id'' of JStr u \<Rightarrow> u \<noteq> [] | _ \<Rightarrow> False"
    and "budget_check r"
    and "bhk_required_check r"
  using assms unfolding buyers_constraints_def by blast+

lemma fold_assign_rel:
  assumes "\<forall>(f, v) \<in> set sets. \<exists>c. f = Column c \<and> R c v"
    and "\<forall>c. R c (r c)"
  shows "\<forall>c. R c (fold assign sets r c)"
  using assms
proof (induction sets arbitrary: r)
  case Nil
  then show ?case by simp
next
  case (Cons a sets)
  obtain f v where a: "a = (f, v)" by (cases a)
  from Cons.prems(1) a obtain c where f: "f = Column c" and v: "R c v" by auto
  have step: "\<forall>d. R d (assign a r d)"
    using Cons.prems(2) v by (simp add: a f)
  from Cons.prems(1) have rest: "\<forall>(f, v) \<in> set sets. \<exists>c. f = Column c \<and> R c v" by simp
  from Cons.IH[OF rest step] show ?case by simp
qed

lemma constraints_rewritten:
  assumes ok: "buyers_constraints cur"
    and same: "\<forall>c. r c = cur c \<or> (cur c = JStr [] \<and> r c = JNull) \<or>
                 (c = ''status'' \<and> r c = JStr ''New'') \<or> (c = ''tags'' \<and> r c = JArr [])"
  shows "buyers_constraints r"
proof -
  note col = same[rule_format]
  note c = buyers_constraintsD[OF ok]
  have nn: "r c = cur c" if "cur c \<noteq> JStr []" "c \<noteq> ''status''" "c \<noteq> ''tags''" for c
    using col[of c] that by auto
  have e1: "r ''full_name'' = cur ''full_name''" using c(2) by (intro nn) auto
  have e2: "r ''phone'' = cur ''phone''" using c(5) by (intro nn) (auto simp: phone_regex_def)
  have e3: "r ''city'' = cur ''city''" using c(6) by (intro nn) (auto simp: col_in_def CityEnum_def)
  have e4: "r ''property_type'' = cur ''property_type''"
    using c(7) by (intro nn) (auto simp: col_in_def PropertyTypeEnum_def)
  have e5: "r ''bhk'' = cur ''bhk''"
    using c(8) by (intro nn) (auto simp: nullable_def col_in_def BHKEnum_def)
  have e6: "r ''purpose'' = cur ''purpose''"
    using c(9) by (intro nn) (auto simp: col_in_def PurposeEnum_def)
  have e7: "r ''budget_min'' = cur ''budget_min''"
    using c(10) by (intro nn) (auto simp: nullable_def int4_nonneg_def)
  have e8: "r ''budget_max'' = cur ''budget_max''"
    using c(11) by (intro nn) (auto simp: nullable_def int4_nonneg_def)
  have e9: "r ''timeline'' = cur ''timeline''"
    using c(12) by (intro nn) (auto simp: col_in_def TimelineEnum_def)
  have e10: "r ''source'' = cur ''source''"
    using c(13) by (intro nn) (auto simp: col_in_def SourceEnum_def)
  have e13: "r ''owner_id'' = cur ''owner_id''"
    using c(17) by (intro nn) auto
  have stat: "nullable (col_in StatusEnum) (r ''status'')"
    using c(14) col[of "''status''"] by (auto simp: nullable_def col_in_def StatusEnum_def)
  have tgs: "nullable (\<lambda>v. case v of JArr ts \<Rightarrow> True | _ \<Rightarrow> False) (r ''tags'')"
    using c(16) col[of "''tags''"] by (auto simp: nullable_def)
  have email: "nullable (varchar 255) (r ''email'')"
    using c(3) col[of "''email''"] by (auto simp: nullable_def)
  have nts: "nullable (\<lambda>v. case v of JStr s \<Rightarrow> length s \<le> 1000 | _ \<Rightarrow> False) (r ''notes'')"
    using c(15) col[of "''notes''"] by (auto simp: nullable_def)
  have b: "budget_check r" using c(18) by (simp add: budget_check_def e7 e8)
  have h: "bhk_required_check r" using c(19) by (simp add: bhk_required_check_def e4 e5)
  show ?thesis
    unfolding buyers_constraints_def
    using c email nts b h stat tgs by (simp only: e1 e2 e3 e4 e5 e6 e7 e8 e9 e10 e13 simp_thms)
qed

lemma map_of_filter_map:
  "map_of (filter (\<lambda>(k, v). P k v) (map (\<lambda>k. (k, f k)) ks)) key =
     (if key \<in> set ks \<and> P key (f key) then Some (f key) else None)"
  by (induction ks) auto

lemma filter_primary_key:
  "distinct (map fst xs) \<Longrightarrow> map_of xs k = Some v \<Longrightarrow>
   filter (\<lambda>(i, r). i = k) xs = [(k, v)]"
proof (induction xs)
  case Nil
  then show ?case by simp
next
  case (Cons x xs)
  obtain i r where x: "x = (i, r)" by (cases x)
  show ?case
  proof (cases "i = k")
    case True
    with Cons.prems x have "k \<notin> fst ` set xs" and "r = v" by auto
    then have "filter (\<lambda>(i, r). i = k) xs = []"
      by (force simp: filter_empty_conv)
    with True x \<open>r = v\<close> show ?thesis by simp
  next
    case False
    with Cons x show ?thesis by auto
  qed
qed

lemma map_filter_distinct_targets:
  assumes "distinct (map fst vd)"
  shows "distinct (map fst (List.map_filter (\<lambda>(key, val).
       if key = ''updatedAt'' \<or> val = JUndefined then None
       else map_option (\<lambda>f. (f, if val = JStr [] then JNull else val))
              (map_option Column (map_of fieldMapping key))) vd))"
  using assms
proof (induction vd)
  case Nil
  then show ?case by (simp add: List.map_filter_simps)
next
  case (Cons e vd)
  obtain key val where e: "e = (key, val)" by (cases e)
  let ?g = "\<lambda>(key, val).
       if key = ''updatedAt'' \<or> val = JUndefined then None
       else map_option (\<lambda>f. (f, if val = JStr [] then JNull else val))
              (map_option Column (map_of fieldMapping key))"
  from Cons have IH: "distinct (map fst (List.map_filter ?g vd))" by simp
  have d: "distinct (map snd fieldMapping)" by (simp add: fieldMapping_def)
  have new: "Column c \<notin> fst ` set (List.map_filter ?g vd)" if "map_of fieldMapping key = Some c" for c
  proof
    assume "Column c \<in> fst ` set (List.map_filter ?g vd)"
    then obtain k v where kv: "(k, v) \<in> set vd" and "map_of fieldMapping k = Some c"
      by (auto simp: List.map_filter_def split: if_splits)
    with that have "k = key" using map_of_inj[OF d] by blast
    with kv Cons.prems e show False by (auto simp: image_iff)
  qed
  show ?case
    unfolding e using IH new
    by (cases "map_of fieldMapping key") (auto simp: List.map_filter_simps)
qed

lemma map_filter_eqI:
  "(\<And>x. x \<in> set xs \<Longrightarrow> f x = g x) \<Longrightarrow> List.map_filter f xs = List.map_filter g xs"
  by (induction xs) (simp_all add: List.map_filter_simps split: option.splits)

lemma map_filter_member:
  "x \<in> set xs \<Longrightarrow> f x = Some y \<Longrightarrow> y \<in> set (List.map_filter f xs)"
  by (induction xs) (auto simp: List.map_filter_simps split: option.splits)

subsection \<open>The diff compares the value as supplied\<close>

text \<open>
  Claim C6 fails on the code.  The lead's email is \<open>NULL\<close> and the validated payload
  supplies the empty string for it.  The statement writes \<open>NULL\<close>, the normalised
  value, so the stored email does not change; the loop compares the stored value with
  the value as supplied, and records the change \<open>{from: null, to: ""}\<close>, which the
  handler appends to the history.
\<close>

theorem update_diff_empty_string_on_null:
  "example_lead ''email'' = JNull \<and>
   update_loop example_lead [(''email'', JStr [])] ([], []) =
     ([(Column ''email'', JNull)], [(''email'', JNull, JStr [])]) \<and>
   updateLead example_clock 5000 owner_u1 7 (Inr [(''email'', JStr [])]) example_store =
     (Ok (Some (example_lead(''email'' := JNull, ''updated_at'' := JDate 5000))),
      \<lparr>buyers = [(7, example_lead(''email'' := JNull, ''updated_at'' := JDate 5000))],
       buyer_history = [\<lparr>buyer_id = 7, changed_by = ''u1'',
                          diff = Updated [(''email'', JNull, JStr [])]\<rparr>],
       next_id = 8\<rparr>)"
proof -
  have own: "checkOwnership owner_u1 (JStr ''u1'')"
    by (simp add: checkOwnership_def owner_u1_def)
  have email: "example_lead ''email'' = JNull"
    by (simp add: example_lead_def)
  have loop: "update_loop example_lead [(''email'', JStr [])] ([], []) =
      ([(Column ''email'', JNull)], [(''email'', JNull, JStr [])])"
    by (simp add: fieldMapping_get_def fieldMapping_def email)
  have ok: "buyers_constraints (example_lead(''email'' := JNull, ''updated_at'' := JDate 5000))"
    by (simp add: example_lead_def constraint_defs)
  have ub: "update_buyers 5000 7 [(Column ''email'', JNull)] example_store =
     Some ([example_lead(''email'' := JNull, ''updated_at'' := JDate 5000)],
           \<lparr>buyers = [(7, example_lead(''email'' := JNull, ''updated_at'' := JDate 5000))],
            buyer_history = [], next_id = 8\<rparr>)"
    by (simp add: update_buyers_def example_store_def ok)
  have "apply_update 5000 owner_u1 7 example_lead [(''email'', JStr [])] example_store =
     (Ok (Some (example_lead(''email'' := JNull, ''updated_at'' := JDate 5000))),
      \<lparr>buyers = [(7, example_lead(''email'' := JNull, ''updated_at'' := JDate 5000))],
       buyer_history = [\<lparr>buyer_id = 7, changed_by = ''u1'',
                          diff = Updated [(''email'', JNull, JStr [])]\<rparr>],
       next_id = 8\<rparr>)"
    unfolding apply_update_def loop by (simp add: ub recordHistory_def owner_u1_def)
  then have "updateLead example_clock 5000 owner_u1 7 (Inr [(''email'', JStr [])]) example_store =
     (Ok (Some (example_lead(''email'' := JNull, ''updated_at'' := JDate 5000))),
      \<lparr>buyers = [(7, example_lead(''email'' := JNull, ''updated_at'' := JDate 5000))],
       buyer_history = [\<lparr>buyer_id = 7, changed_by = ''u1'',
                          diff = Updated [(''email'', JNull, JStr [])]\<rparr>],
       next_id = 8\<rparr>)"
    by (simp add: updateLead_def example_found example_owner own get_def)
  with email loop show ?thesis by blast
qed

theorem update_diff_empty_string_on_null_witness:
  "buyer_history (snd (updateLead example_clock 5000 owner_u1 7 (Inr [(''email'', JStr [])])
      example_store)) =
     [\<lparr>buyer_id = 7, changed_by = ''u1'', diff = Updated [(''email'', JNull, JStr [])]\<rparr>]"
  using update_diff_empty_string_on_null by simp

section \<open>Properties of the schemas\<close>

lemmas schema_defs = z_enum_def z_literal_def z_optional_def z_default_def z_or_def z_string_def
  min_length_def max_length_def matches_def budget_number_def z_array_of_strings_def phoneSchema_def

lemmas enum_defs = CityEnum_def PropertyTypeEnum_def BHKEnum_def PurposeEnum_def
  TimelineEnum_def SourceEnum_def StatusEnum_def

lemma no_custom_enum [simp]: "Issue custom p m \<notin> set (z_enum opts v)"
  by (simp add: z_enum_def split: jsval.splits)

lemma no_custom_literal [simp]: "Issue custom p m \<notin> set (z_literal lit v)"
  by (simp add: z_literal_def)

lemma no_custom_optional [simp]:
  "(\<And>v. Issue custom p m \<notin> set (el v)) \<Longrightarrow> Issue custom p m \<notin> set (z_optional el v)"
  by (simp add: z_optional_def)

lemma no_custom_default [simp]:
  "(\<And>v. Issue custom p m \<notin> set (el v)) \<Longrightarrow> Issue custom p m \<notin> set (z_default el v)"
  by (simp add: z_default_def)

lemma no_custom_or [simp]:
  "(\<And>v. Issue custom p m \<notin> set (a v)) \<Longrightarrow> (\<And>v. Issue custom p m \<notin> set (b v)) \<Longrightarrow>
   Issue custom p m \<notin> set (z_or a b v)"
  by (simp add: z_or_def)

lemma no_custom_string [simp]:
  "(\<And>s. Issue custom p m \<notin> set (checks s)) \<Longrightarrow> Issue custom p m \<notin> set (z_string checks v)"
  by (simp add: z_string_def split: jsval.splits)

lemma no_custom_checks [simp]:
  "Issue custom p m \<notin> set (min_length n msg s)"
  "Issue custom p m \<notin> set (max_length n msg s)"
  "Issue custom p m \<notin> set (matches pat msg' s)"
  by (simp_all add: min_length_def max_length_def matches_def)

lemma no_custom_budget [simp]: "Issue custom p m \<notin> set (budget_number v)"
  by (simp add: budget_number_def split: jsval.splits)

lemma no_custom_array [simp]: "Issue custom p m \<notin> set (z_array_of_strings v)"
  by (simp add: z_array_of_strings_def split: jsval.splits)

lemma no_custom_phone [simp]: "Issue custom p m \<notin> set (phoneSchema v)"
  by (simp add: phoneSchema_def)

lemma prefix_path_custom:
  "prefix_path key i = Issue custom p m \<Longrightarrow> \<exists>q. i = Issue custom q m"
  by (cases i) auto

lemma parse_shape_no_custom:
  assumes "\<And>key el v q. (key, el) \<in> set shape \<Longrightarrow> Issue custom q m \<notin> set (el v)"
  shows "Issue custom p m \<notin> set (parse_shape shape input)"
proof
  assume "Issue custom p m \<in> set (parse_shape shape input)"
  then obtain key el i where in_shape: "(key, el) \<in> set shape"
    and i: "i \<in> set (el (get input key))" and "prefix_path key i = Issue custom p m"
    by (auto simp: parse_shape_def)
  then obtain q where "i = Issue custom q m" using prefix_path_custom by blast
  with i assms[OF in_shape] show False by blast
qed

lemma partial_no_custom:
  "Issue custom p m \<notin> set (updateBuyerSchema is_email is_datetime cand)"
  unfolding updateBuyerSchema_def
proof (rule parse_shape_no_custom)
  fix key el v q
  assume "(key, el) \<in> set (partial (buyer_shape is_email) @
            [(''updatedAt'', z_optional (z_string (matches is_datetime None)))])"
  then consider el' where "(key, el') \<in> set (buyer_shape is_email)" "el = z_optional el'"
    | "el = z_optional (z_string (matches is_datetime None))"
    by (auto simp: partial_def)
  then show "Issue custom q m \<notin> set (el v)"
  proof cases
    case 1
    from 1(1) have "Issue custom q m \<notin> set (el' w)" for w
      unfolding buyer_shape_def by (elim set_ConsD[elim_format]) auto
    with 1(2) show ?thesis by simp
  next
    case 2
    then show ?thesis by simp
  qed
qed

subsection \<open>Partial candidates\<close>

text \<open>
  Claim C4.  The partial schema that validates an update payload runs neither
  cross-field refinement.  In particular it raises no bedroom-count issue when the
  property type or the bedroom count is absent, no budget issue when a budget bound is
  absent, and the payload holding only \<open>propertyType = Apartment\<close> passes.
\<close>

theorem updateBuyerSchema_skips_refinements:
  "(get cand ''propertyType'' = JUndefined \<or> get cand ''bhk'' = JUndefined \<longrightarrow>
      Issue custom [''bhk''] (Some ''BHK is required for Apartment and Villa property types'')
        \<notin> set (updateBuyerSchema is_email is_datetime cand)) \<and>
   (get cand ''budgetMin'' = JUndefined \<or> get cand ''budgetMax'' = JUndefined \<longrightarrow>
      Issue custom [''budgetMax'']
        (Some ''Budget max must be greater than or equal to budget min'')
        \<notin> set (updateBuyerSchema is_email is_datetime cand)) \<and>
   updateBuyerSchema is_email is_datetime [(''propertyType'', JStr ''Apartment'')] = []"
proof -
  have "updateBuyerSchema is_email is_datetime [(''propertyType'', JStr ''Apartment'')] = []"
    by (simp add: updateBuyerSchema_def partial_def parse_shape_def buyer_shape_def
        get_def schema_defs PropertyTypeEnum_def)
  then show ?thesis by (simp add: partial_no_custom)
qed

theorem updateBuyerSchema_skips_refinements_witness:
  "get [(''propertyType'', JStr ''Apartment''), (''budgetMin'', JNum 9)] ''bhk'' = JUndefined \<and>
   get [(''propertyType'', JStr ''Apartment''), (''budgetMin'', JNum 9)] ''budgetMax'' = JUndefined \<and>
   Issue custom [''bhk''] (Some ''BHK is required for Apartment and Villa property types'')
     \<notin> set (updateBuyerSchema (\<lambda>s. False) (\<lambda>s. False)
              [(''propertyType'', JStr ''Apartment''), (''budgetMin'', JNum 9)]) \<and>
   Issue custom [''budgetMax''] (Some ''Budget max must be greater than or equal to budget min'')
     \<notin> set (updateBuyerSchema (\<lambda>s. False) (\<lambda>s. False)
              [(''propertyType'', JStr ''Apartment''), (''budgetMin'', JNum 9)]) \<and>
   updateBuyerSchema (\<lambda>s. False) (\<lambda>s. False) [(''propertyType'', JStr ''Apartment'')] = []"
  using updateBuyerSchema_skips_refinements[of
      "[(''propertyType'', JStr ''Apartment''), (''budgetMin'', JNum 9)]"
      "\<lambda>s. False" "\<lambda>s. False"]
  by (simp add: get_def)

text \<open>
  The same payload is refused by the bedroom-count predicate itself: the claim rests on
  \<open>partial()\<close> leaving the refinements out.
\<close>

lemma bhk_refinement_on_partial_candidate:
  "\<not> bhk_refinement [(''propertyType'', JStr ''Apartment'')]"
  by (simp add: bhk_refinement_def get_def)

subsection \<open>Budget bounds of a full record\<close>

lemma buyerSchema_rejects_inverted_budget:
  assumes "get cand ''budgetMin'' = JNum a" and "get cand ''budgetMax'' = JNum b"
    and "b < a" and "b \<noteq> 0" and "a \<noteq> 0"
  shows "buyerSchema is_email cand \<noteq> []"
proof (cases "list_ex aborts (parse_shape (buyer_shape is_email) cand)")
  case True
  then have "parse_shape (buyer_shape is_email) cand \<noteq> []" by auto
  with True show ?thesis by (simp add: buyerSchema_def refined_def)
next
  case False
  have "\<not> budget_refinement cand"
    using assms by (simp add: budget_refinement_def)
  then have "refinements cand \<noteq> []" by (simp add: refinements_def)
  with False show ?thesis by (simp add: buyerSchema_def refined_def)
qed

text \<open>
  Claim C3 fails on the code.  A full record with \<open>budgetMin = 5000000\<close> and
  \<open>budgetMax = 0\<close> has both bounds present and the upper one below the lower one, and
  the full-record schema accepts it: the refinement tests the bounds for truthiness, and
  zero is falsy.
\<close>

theorem buyerSchema_accepts_zero_max:
  "get zero_max_candidate ''budgetMin'' = JNum 5000000 \<and>
   get zero_max_candidate ''budgetMax'' = JNum 0 \<and>
   buyerSchema is_email zero_max_candidate = []"
  by (simp add: buyerSchema_def refined_def parse_shape_def buyer_shape_def
      zero_max_candidate_def get_def schema_defs refinements_def bhk_refinement_def
      budget_refinement_def phone_regex_def is_digit_def enum_defs)

theorem buyerSchema_accepts_zero_max_witness:
  "buyerSchema (\<lambda>s. False) zero_max_candidate = []"
  using buyerSchema_accepts_zero_max[of "\<lambda>s. False"] by simp

section \<open>Properties of the update request\<close>

text \<open>What the parse of a request body hands to the loop.\<close>

lemma get_in_set: "get obj k \<noteq> JUndefined \<Longrightarrow> (k, get obj k) \<in> set obj"
  by (auto simp: get_def split: option.splits dest: map_of_SomeD)

lemma distinct_filter_keys:
  "distinct ks \<Longrightarrow> distinct (map fst (filter P (map (\<lambda>k. (k, f k)) ks)))"
  by (induction ks) (auto simp: image_iff)

lemma filter_map_member:
  "(key, val) \<in> set (filter P (map (\<lambda>k. (k, f k)) ks)) \<Longrightarrow> key \<in> set ks \<and> val = f key"
  by auto

lemma filter_map_memberI:
  "k \<in> set ks \<Longrightarrow> P (k, f k) \<Longrightarrow> (k, f k) \<in> set (filter P (map (\<lambda>k. (k, f k)) ks))"
  by auto

lemma updateBuyer_output_distinct: "distinct (map fst (updateBuyer_output body))"
  unfolding updateBuyer_output_def
  by (rule distinct_filter_keys) (simp add: buyer_keys_def)

lemma updateBuyer_output_member:
  assumes "(key, val) \<in> set (updateBuyer_output body)"
  shows "key \<in> set (buyer_keys @ [''updatedAt'']) \<and>
         val = (if key = ''status''
                then (if get body key = JUndefined then JStr ''New'' else get body key)
                else if key = ''tags''
                then (if get body key = JUndefined then JArr [] else get body key)
                else get body key)"
  using assms unfolding updateBuyer_output_def by (rule filter_map_member)

lemma updateBuyer_output_status:
  "(''status'', if get body ''status'' = JUndefined then JStr ''New'' else get body ''status'')
     \<in> set (updateBuyer_output body)"
proof -
  let ?f = "\<lambda>key. if key = ''status''
                then (if get body key = JUndefined then JStr ''New'' else get body key)
                else if key = ''tags''
                then (if get body key = JUndefined then JArr [] else get body key)
                else get body key"
  have "(''status'', ?f ''status'') \<in> set (updateBuyer_output body)"
    unfolding updateBuyer_output_def
    by (rule filter_map_memberI) (simp_all add: buyer_keys_def)
  then show ?thesis by simp
qed

lemma updateBuyer_output_token:
  "get (updateBuyer_output body) ''updatedAt'' = get body ''updatedAt''"
proof -
  have "map_of (updateBuyer_output body) ''updatedAt'' =
      (if get body ''updatedAt'' \<noteq> JUndefined \<or> ''updatedAt'' \<in> fst ` set body
       then Some (get body ''updatedAt'') else None)"
    unfolding updateBuyer_output_def by (subst map_of_filter_map) simp
  then show ?thesis by (auto simp: get_def)
qed


lemma buyer_keys_mapped: "set buyer_keys = fst ` set fieldMapping"
  by (simp add: buyer_keys_def fieldMapping_def)

lemmas update_eval_defs = updateBuyerSchema_def partial_def parse_shape_def buyer_shape_def
  get_def schema_defs enum_defs

subsection \<open>Requests that repeat the stored values\<close>

text \<open>
  Claim C5, as amended.  Take an existing lead that satisfies the table constraints, in a
  table keyed by id, an authorised actor, and a request body that passes validation,
  carries no stale token and supplies, for every field it names, the value the lead
  holds.  Then the update succeeds and \<open>updated_at\<close> of the lead is set to the
  instant of the statement: it is refreshed, not preserved.  Every field the body names
  keeps its value, except that a stored empty string is written back as \<open>NULL\<close>.
\<close>

theorem updateLead_request_noop:
  assumes found: "map_of (buyers st) lid = Some cur"
    and pkey: "distinct (map fst (buyers st))"
    and ok: "buyers_constraints cur"
    and own: "checkOwnership u (cur ''owner_id'')"
    and valid: "updateBuyerSchema is_email is_datetime body = []"
    and fresh: "\<not> (truthy (get body ''updatedAt'') \<and>
                   time_neq (new_Date date_parse (get body ''updatedAt''))
                            (new_Date date_parse (cur ''updated_at'')))"
    and same: "\<forall>(k, v) \<in> set body. \<forall>c. map_of fieldMapping k = Some c \<longrightarrow> v = cur c"
  shows "\<exists>row st'.
          updateLead_request is_email is_datetime date_parse now u lid body st =
            (Ok (Some row), st') \<and>
          buyers st' = map (\<lambda>(i, r). if i = lid then (i, row) else (i, r)) (buyers st) \<and>
          row ''updated_at'' = JDate now \<and>
          (\<forall>(k, v) \<in> set body. \<forall>c. map_of fieldMapping k = Some c \<longrightarrow>
             row c = cur c \<or> (cur c = JStr [] \<and> row c = JNull))"
proof -
  let ?vd = "updateBuyer_output body"
  let ?R = "\<lambda>c v. v = cur c \<or> (cur c = JStr [] \<and> v = JNull) \<or>
       (c = ''status'' \<and> get body ''status'' = JUndefined \<and> v = JStr ''New'') \<or>
       (c = ''tags'' \<and> get body ''tags'' = JUndefined \<and> v = JArr [])"
  let ?g = "\<lambda>(key, val).
       if key = ''updatedAt'' \<or> val = JUndefined then None
       else map_option (\<lambda>f. (f, if val = JStr [] then JNull else val)) (fieldMapping_get key)"
  let ?g' = "\<lambda>(key, val).
       if key = ''updatedAt'' \<or> val = JUndefined then None
       else map_option (\<lambda>f. (f, if val = JStr [] then JNull else val))
              (map_option Column (map_of fieldMapping key))"
  let ?sets = "List.map_filter ?g ?vd"
  note c = buyers_constraintsD[OF ok]
  have parsed: "updateBuyerSchema_parse is_email is_datetime body = Inr ?vd"
    using valid by (simp add: updateBuyerSchema_parse_def)
  have supplied: "get body k = cur c"
    if "get body k \<noteq> JUndefined" "map_of fieldMapping k = Some c" for k c
    using get_in_set[OF that(1)] same that(2) by auto
  have val_eq: "val = (if key = ''status'' \<and> get body key = JUndefined then JStr ''New''
                      else if key = ''tags'' \<and> get body key = JUndefined then JArr []
                      else get body key)"
    and key_in: "key \<in> insert ''updatedAt'' (fst ` set fieldMapping)"
    if "(key, val) \<in> set ?vd" for key val
    using updateBuyer_output_member[OF that] by (auto simp: buyer_keys_mapped)
  have mapped: "fieldMapping_get k = map_option Column (map_of fieldMapping k)"
    if "k \<in> fst ` set ?vd" "k \<noteq> ''updatedAt''" for k
  proof -
    from that(1) obtain v where "(k, v) \<in> set ?vd" by auto
    from key_in[OF this] that(2) have "k \<in> fst ` set fieldMapping" by auto
    then obtain c where "map_of fieldMapping k = Some c"
      by (metis domIff dom_map_of_conv_image_fst not_None_eq)
    then show ?thesis by (simp add: fieldMapping_get_def)
  qed
  have gg': "List.map_filter ?g ?vd = List.map_filter ?g' ?vd"
  proof (rule map_filter_eqI)
    fix x assume x: "x \<in> set ?vd"
    obtain k v where kv: "x = (k, v)" by (cases x)
    from x kv have "k \<in> fst ` set ?vd" by (auto simp: image_iff intro: bexI[where x="(k, v)"])
    from mapped[OF this] show "?g x = ?g' x" by (simp add: kv)
  qed
  have loop1: "fst (update_loop cur ?vd ([], [])) = ?sets"
    by (simp add: update_loop_updates)
  have sets_shape: "\<forall>(f, v) \<in> set ?sets. \<exists>c. f = Column c \<and> ?R c v"
  proof (clarify)
    fix f v assume "(f, v) \<in> set ?sets"
    then obtain key val where kv: "(key, val) \<in> set ?vd" and k: "key \<noteq> ''updatedAt''"
      and d: "val \<noteq> JUndefined" and f: "fieldMapping_get key = Some f"
      and v: "v = (if val = JStr [] then JNull else val)"
      by (auto simp: List.map_filter_def split: if_splits)
    from kv have "key \<in> fst ` set ?vd" by (auto simp: image_iff intro: bexI[where x="(key, val)"])
    from mapped[OF this k] f obtain c where c: "map_of fieldMapping key = Some c" "f = Column c"
      by (cases "map_of fieldMapping key") auto
    have st_col: "c = ''status''" if "key = ''status''"
      using c(1) that by (simp add: fieldMapping_def)
    have tg_col: "c = ''tags''" if "key = ''tags''"
      using c(1) that by (simp add: fieldMapping_def)
    consider (dflt_status) "key = ''status''" "get body key = JUndefined" "val = JStr ''New''"
      | (dflt_tags) "key = ''tags''" "get body key = JUndefined" "val = JArr []"
      | (given) "val = get body key"
      using val_eq[OF kv] by (auto split: if_splits)
    then have "?R c v"
    proof cases
      case dflt_status
      with v st_col show ?thesis by simp
    next
      case dflt_tags
      with v tg_col show ?thesis by simp
    next
      case given
      with d have "get body key \<noteq> JUndefined" by simp
      from supplied[OF this c(1)] given have "val = cur c" by simp
      with v show ?thesis by auto
    qed
    with c(2) show "\<exists>c. f = Column c \<and> ?R c v" by blast
  qed
  have nonempty: "?sets \<noteq> []"
  proof -
    let ?v = "if get body ''status'' = JUndefined then JStr ''New'' else get body ''status''"
    have kv: "(''status'', ?v) \<in> set ?vd" by (rule updateBuyer_output_status)
    have "fieldMapping_get ''status'' = Some (Column ''status'')"
      by (simp add: fieldMapping_get_def fieldMapping_def)
    then have "?g (''status'', ?v) = Some (Column ''status'', if ?v = JStr [] then JNull else ?v)"
      by simp
    then have "(Column ''status'', if ?v = JStr [] then JNull else ?v) \<in> set ?sets"
      using kv by (intro map_filter_member)
    then show ?thesis by auto
  qed
  have noinh: "Inherited \<notin> set (map fst ?sets)"
  proof
    assume "Inherited \<in> set (map fst ?sets)"
    then obtain v where "(Inherited, v) \<in> set ?sets" by auto
    with sets_shape show False by blast
  qed
  have dist: "distinct (map fst ?sets)"
    unfolding gg' by (rule map_filter_distinct_targets[OF updateBuyer_output_distinct])
  let ?upd = "\<lambda>r. (fold assign ?sets r)(''updated_at'' := JDate now)"
  have hit: "filter (\<lambda>(i, r). i = lid) (buyers st) = [(lid, cur)]"
    by (rule filter_primary_key[OF pkey found])
  have shape: "\<forall>c. ?R c (fold assign ?sets cur c)"
    by (rule fold_assign_rel[where R = ?R, OF sets_shape]) simp
  have okrow: "buyers_constraints (?upd cur)"
    unfolding constraints_updated_at
    by (rule constraints_rewritten[OF ok]) (use shape in blast)
  have ub: "update_buyers now lid ?sets st =
      Some ([?upd cur],
            st\<lparr>buyers := map (\<lambda>(i, r). if i = lid then (i, ?upd r) else (i, r)) (buyers st)\<rparr>)"
    using noinh dist okrow by (simp add: update_buyers_def Let_def hit)
  have same_map: "map (\<lambda>(i, r). if i = lid then (i, ?upd r) else (i, r)) (buyers st) =
                  map (\<lambda>(i, r). if i = lid then (i, ?upd cur) else (i, r)) (buyers st)"
  proof (rule map_cong[OF refl], clarify)
    fix i r assume "(i, r) \<in> set (buyers st)"
    with pkey found have "i = lid \<Longrightarrow> r = cur"
      by (metis map_of_eq_Some_iff option.inject)
    then show "(if i = lid then (i, ?upd r) else (i, r)) = (if i = lid then (i, ?upd cur) else (i, r))"
      by auto
  qed
  obtain chs where loop: "update_loop cur ?vd ([], []) = (?sets, chs)"
    using loop1 by (cases "update_loop cur ?vd ([], [])") simp
  let ?st1 = "st\<lparr>buyers := map (\<lambda>(i, r). if i = lid then (i, ?upd cur) else (i, r)) (buyers st)\<rparr>"
  let ?st' = "if chs \<noteq> [] then recordHistory lid (user_id u) (Updated chs) ?st1 else ?st1"
  have "apply_update now u lid cur ?vd st = (Ok (Some (?upd cur)), ?st')"
    using nonempty ub same_map by (simp add: apply_update_def loop)
  then have run: "updateLead_request is_email is_datetime date_parse now u lid body st =
      (Ok (Some (?upd cur)), ?st')"
    using found own fresh
    by (simp add: updateLead_request_def parsed updateLead_def updateBuyer_output_token)
  have tbl: "buyers ?st' =
      map (\<lambda>(i, r). if i = lid then (i, ?upd cur) else (i, r)) (buyers st)"
    by simp
  have stamp: "?upd cur ''updated_at'' = JDate now" by simp
  have kept: "\<forall>(k, v) \<in> set body. \<forall>c. map_of fieldMapping k = Some c \<longrightarrow>
      ?upd cur c = cur c \<or> (cur c = JStr [] \<and> ?upd cur c = JNull)"
  proof (clarify)
    fix k v c
    assume kv: "(k, v) \<in> set body" and m: "map_of fieldMapping k = Some c"
      and ne: "\<not> (cur c = JStr [] \<and> ?upd cur c = JNull)"
    from m have col: "c \<noteq> ''updated_at''"
      by (auto simp: fieldMapping_def split: if_splits)
    from kv obtain w where w: "map_of body k = Some w"
      by (metis weak_map_of_SomeI not_None_eq map_of_eq_None_iff image_eqI fst_conv)
    then have "(k, w) \<in> set body" by (rule map_of_SomeD)
    with same m have wc: "w = cur c" by auto
    from w have gk: "get body k = w" by (simp add: get_def)
    have defined: "cur c \<noteq> JUndefined" if "c = ''status'' \<or> c = ''tags''"
      using that c(14) c(16) by (auto simp: nullable_def col_in_def)
    have key_status: "k = ''status''" if "c = ''status''"
      using m that by (auto simp: fieldMapping_def split: if_splits)
    have key_tags: "k = ''tags''" if "c = ''tags''"
      using m that by (auto simp: fieldMapping_def split: if_splits)
    from shape have "?R c (fold assign ?sets cur c)" by blast
    then have "fold assign ?sets cur c = cur c \<or>
        (cur c = JStr [] \<and> fold assign ?sets cur c = JNull)"
      using gk wc defined key_status key_tags by auto
    with col ne show "?upd cur c = cur c" by auto
  qed
  from run tbl stamp kept show ?thesis by blast
qed


theorem updateLead_request_noop_witness:
  "\<exists>row st'.
     updateLead_request (\<lambda>s. False) (\<lambda>s. False) example_clock 5000 owner_u1 7
       same_values_body example_store = (Ok (Some row), st') \<and>
     buyers st' = [(7, row)] \<and>
     row ''updated_at'' = JDate 5000 \<and>
     row ''status'' = JStr ''New'' \<and> row ''notes'' = JStr ''plot'' \<and>
     row ''tags'' = JArr [''investment'']"
proof -
  have ok: "buyers_constraints example_lead"
    by (simp add: example_lead_def constraint_defs)
  have own: "checkOwnership owner_u1 (example_lead ''owner_id'')"
    by (simp add: checkOwnership_def example_owner owner_u1_def)
  have pkey: "distinct (map fst (buyers example_store))"
    by (simp add: example_store_def)
  have valid: "updateBuyerSchema (\<lambda>s. False) (\<lambda>s. False) same_values_body = []"
    by (simp add: same_values_body_def update_eval_defs)
  have fresh: "\<not> (truthy (get same_values_body ''updatedAt'') \<and>
      time_neq (new_Date example_clock (get same_values_body ''updatedAt''))
               (new_Date example_clock (example_lead ''updated_at'')))"
    by (simp add: get_def same_values_body_def)
  have same: "\<forall>(k, v) \<in> set same_values_body.
      \<forall>c. map_of fieldMapping k = Some c \<longrightarrow> v = example_lead c"
    by (simp add: same_values_body_def fieldMapping_def example_lead_def)
  from updateLead_request_noop[OF example_found pkey ok own valid fresh same, where now = 5000]
  obtain row st' where
    run: "updateLead_request (\<lambda>s. False) (\<lambda>s. False) example_clock 5000 owner_u1 7
       same_values_body example_store = (Ok (Some row), st')"
    and tbl: "buyers st' = map (\<lambda>(i, r). if i = 7 then (i, row) else (i, r)) (buyers example_store)"
    and stamp: "row ''updated_at'' = JDate 5000"
    and kept: "\<forall>(k, v) \<in> set same_values_body. \<forall>c. map_of fieldMapping k = Some c \<longrightarrow>
        row c = example_lead c \<or> (example_lead c = JStr [] \<and> row c = JNull)"
    by blast
  from kept have "row ''status'' = JStr ''New''" "row ''notes'' = JStr ''plot''"
    "row ''tags'' = JArr [''investment'']"
    by (simp_all add: same_values_body_def fieldMapping_def example_lead_def)
  moreover from tbl have "buyers st' = [(7, row)]" by (simp add: example_store_def)
  ultimately show ?thesis using run stamp by blast
qed

text \<open>
  The request that repeats the notes of the example lead, and nothing else, evaluated:
  the parse adds \<open>status\<close> and \<open>tags\<close> with their defaults, and the loop writes
  all three.
\<close>

lemma notes_again_parsed:
  "updateBuyerSchema_parse (\<lambda>s. False) (\<lambda>s. False) notes_again_body =
     Inr [(''status'', JStr ''New''), (''notes'', JStr ''plot''), (''tags'', JArr [])]"
proof -
  have "updateBuyerSchema (\<lambda>s. False) (\<lambda>s. False) notes_again_body = []"
    by (simp add: notes_again_body_def update_eval_defs)
  moreover have "updateBuyer_output notes_again_body =
      [(''status'', JStr ''New''), (''notes'', JStr ''plot''), (''tags'', JArr [])]"
    by (simp add: updateBuyer_output_def notes_again_body_def buyer_keys_def get_def)
  ultimately show ?thesis by (simp add: updateBuyerSchema_parse_def)
qed

lemma notes_again_request:
  "updateLead_request (\<lambda>s. False) (\<lambda>s. False) example_clock 5000 owner_u1 7
     notes_again_body example_store =
     (Ok (Some (example_lead(''status'' := JStr ''New'', ''notes'' := JStr ''plot'',
                             ''tags'' := JArr [], ''updated_at'' := JDate 5000))),
      \<lparr>buyers = [(7, example_lead(''status'' := JStr ''New'', ''notes'' := JStr ''plot'',
                                    ''tags'' := JArr [], ''updated_at'' := JDate 5000))],
       buyer_history = [\<lparr>buyer_id = 7, changed_by = ''u1'',
                          diff = Updated [(''tags'', JArr [''investment''], JArr [])]\<rparr>],
       next_id = 8\<rparr>)"
proof -
  let ?vd = "[(''status'', JStr ''New''), (''notes'', JStr ''plot''), (''tags'', JArr [])]"
  let ?row = "example_lead(''status'' := JStr ''New'', ''notes'' := JStr ''plot'',
                           ''tags'' := JArr [], ''updated_at'' := JDate 5000)"
  have own: "checkOwnership owner_u1 (JStr ''u1'')"
    by (simp add: checkOwnership_def owner_u1_def)
  have loop: "update_loop example_lead ?vd ([], []) =
      ([(Column ''status'', JStr ''New''), (Column ''notes'', JStr ''plot''),
        (Column ''tags'', JArr [])],
       [(''tags'', JArr [''investment''], JArr [])])"
    by (simp add: fieldMapping_get_def fieldMapping_def example_lead_def)
  have ok: "buyers_constraints ?row"
    by (simp add: example_lead_def constraint_defs)
  have ub: "update_buyers 5000 7
      [(Column ''status'', JStr ''New''), (Column ''notes'', JStr ''plot''),
       (Column ''tags'', JArr [])] example_store =
     Some ([?row], \<lparr>buyers = [(7, ?row)], buyer_history = [], next_id = 8\<rparr>)"
    by (simp add: update_buyers_def example_store_def ok)
  have "apply_update 5000 owner_u1 7 example_lead ?vd example_store =
     (Ok (Some ?row),
      \<lparr>buyers = [(7, ?row)],
       buyer_history = [\<lparr>buyer_id = 7, changed_by = ''u1'',
                          diff = Updated [(''tags'', JArr [''investment''], JArr [])]\<rparr>],
       next_id = 8\<rparr>)"
    unfolding apply_update_def loop by (simp add: ub recordHistory_def owner_u1_def)
  then show ?thesis
    unfolding updateLead_request_def notes_again_parsed
    by (simp add: updateLead_def example_found example_owner own get_def)
qed

text \<open>
  Claim C5 as stated fails: supplying the stored notes again moves \<open>updated_at\<close> of
  the lead from the instant 1000 to the instant 5000.
\<close>

theorem updateLead_request_noop_counterexample:
  "get notes_again_body ''notes'' = example_lead ''notes'' \<and>
   example_lead ''updated_at'' = JDate 1000 \<and>
   (\<exists>row st'.
      updateLead_request (\<lambda>s. False) (\<lambda>s. False) example_clock 5000 owner_u1 7
        notes_again_body example_store = (Ok (Some row), st') \<and>
      buyers st' = [(7, row)] \<and>
      row ''updated_at'' = JDate 5000)"
proof -
  have "get notes_again_body ''notes'' = example_lead ''notes''"
    by (simp add: get_def notes_again_body_def example_lead_def)
  then show ?thesis
    using example_updated_at by (simp add: notes_again_request)
qed

text \<open>
  The same request is recorded in the history, with the tags of the lead, which it did
  not name, as the change: the empty array the parse supplies is never identical to the
  stored array.
\<close>

lemma notes_again_history:
  "buyer_history (snd (updateLead_request (\<lambda>s. False) (\<lambda>s. False) example_clock 5000 owner_u1 7
     notes_again_body example_store)) =
     [\<lparr>buyer_id = 7, changed_by = ''u1'',
       diff = Updated [(''tags'', JArr [''investment''], JArr [])]\<rparr>]"
  by (simp add: notes_again_request)

text \<open>
  The request \<open>{email: ""}\<close> for the example lead, whose email is \<open>NULL\<close>: the
  history row holds the email change \<open>{from: null, to: ""}\<close> on this path too, next
  to the change of the tags.
\<close>

lemma empty_email_request:
  "buyer_history (snd (updateLead_request (\<lambda>s. False) (\<lambda>s. False) example_clock 5000 owner_u1 7
     [(''email'', JStr [])] example_store)) =
     [\<lparr>buyer_id = 7, changed_by = ''u1'',
       diff = Updated [(''email'', JNull, JStr []),
                       (''tags'', JArr [''investment''], JArr [])]\<rparr>]"
proof -
  let ?vd = "[(''email'', JStr []), (''status'', JStr ''New''), (''tags'', JArr [])]"
  let ?row = "example_lead(''email'' := JNull, ''status'' := JStr ''New'',
                           ''tags'' := JArr [], ''updated_at'' := JDate 5000)"
  have "updateBuyerSchema (\<lambda>s. False) (\<lambda>s. False) [(''email'', JStr [])] = []"
    by (simp add: update_eval_defs)
  moreover have "updateBuyer_output [(''email'', JStr [])] = ?vd"
    by (simp add: updateBuyer_output_def buyer_keys_def get_def)
  ultimately have parsed:
    "updateBuyerSchema_parse (\<lambda>s. False) (\<lambda>s. False) [(''email'', JStr [])] = Inr ?vd"
    by (simp add: updateBuyerSchema_parse_def)
  have own: "checkOwnership owner_u1 (JStr ''u1'')"
    by (simp add: checkOwnership_def owner_u1_def)
  have loop: "update_loop example_lead ?vd ([], []) =
      ([(Column ''email'', JNull), (Column ''status'', JStr ''New''), (Column ''tags'', JArr [])],
       [(''email'', JNull, JStr []), (''tags'', JArr [''investment''], JArr [])])"
    by (simp add: fieldMapping_get_def fieldMapping_def example_lead_def)
  have ok: "buyers_constraints ?row"
    by (simp add: example_lead_def constraint_defs)
  have ub: "update_buyers 5000 7
      [(Column ''email'', JNull), (Column ''status'', JStr ''New''), (Column ''tags'', JArr [])]
      example_store =
     Some ([?row], \<lparr>buyers = [(7, ?row)], buyer_history = [], next_id = 8\<rparr>)"
    by (simp add: update_buyers_def example_store_def ok)
  have "buyer_history (snd (apply_update 5000 owner_u1 7 example_lead ?vd example_store)) =
     [\<lparr>buyer_id = 7, changed_by = ''u1'',
       diff = Updated [(''email'', JNull, JStr []),
                       (''tags'', JArr [''investment''], JArr [])]\<rparr>]"
    unfolding apply_update_def loop by (simp add: ub recordHistory_def owner_u1_def)
  then show ?thesis
    unfolding updateLead_request_def parsed
    by (simp add: updateLead_def example_found example_owner own get_def)
qed

section \<open>Properties of the bulk import\<close>

lemma validate_rows_eq:
  "validate_rows is_email rows index (validRows, errors) =
     (validRows @ map (\<lambda>row. csvRow_output (processedRow row))
                    (filter (\<lambda>row. csvRowSchema is_email (processedRow row) = []) rows),
      errors @ map (\<lambda>(i, row). (i, None))
                 (filter (\<lambda>(i, row). csvRowSchema is_email (processedRow row) \<noteq> [])
                    (enumerate (Suc index) rows)))"
proof (induction rows arbitrary: index validRows errors)
  case Nil
  then show ?case by simp
next
  case (Cons row rows)
  show ?case
    by (cases "csvRowSchema is_email (processedRow row)")
      (simp_all add: Cons.IH ZodError_errors_def)
qed

text \<open>
  Claim C1 fails on the code.  Take a batch in which some row fails the bulk-import
  schema.  The handler returns the store it was given: no lead and no history row is
  inserted.  When the batch is within the cap of 200 rows, so that the rows are
  validated at all, the answer is the rejection with one entry for every failing row, in
  order, under the row's 1-based position (validation does not stop at a failing row),
  together with the number of rows that passed and the number of rows.  But no entry
  holds a validation error of its row: the handler reads the messages from
  \<open>error.errors\<close>, which the caught error does not have, so the \<open>errors\<close> of
  every entry is \<open>undefined\<close> and the caller learns the positions only.
\<close>

theorem importLeads_all_or_nothing:
  assumes "\<exists>row \<in> set rows. csvRowSchema is_email (processedRow row) \<noteq> []"
  shows "snd (importLeads is_email now u rows st) = st \<and>
    (length rows \<le> 200 \<longrightarrow>
     fst (importLeads is_email now u rows st) =
       ImportRejected
         (map (\<lambda>(i, row). (i, None))
            (filter (\<lambda>(i, row). csvRowSchema is_email (processedRow row) \<noteq> [])
               (enumerate 1 rows)))
         (length (filter (\<lambda>row. csvRowSchema is_email (processedRow row) = []) rows))
         (length rows))"
proof -
  from assms obtain row where row: "row \<in> set rows"
    and bad: "csvRowSchema is_email (processedRow row) \<noteq> []" by blast
  then have nonempty: "rows \<noteq> []" by auto
  from row obtain i where "i < length rows" and "rows ! i = row"
    by (auto simp: in_set_conv_nth)
  then have "(Suc i, row) \<in> set (enumerate 1 rows)"
    by (auto simp: in_set_enumerate_eq)
  with bad have "filter (\<lambda>(i, row). csvRowSchema is_email (processedRow row) \<noteq> [])
      (enumerate 1 rows) \<noteq> []"
    by (auto simp: filter_empty_conv)
  then show ?thesis
    using nonempty by (simp add: importLeads_def validate_rows_eq)
qed


lemmas csv_eval_defs = csvRowSchema_def refined_def parse_shape_def csv_shape_def buyer_shape_def
  get_def schema_defs refinements_def bhk_refinement_def budget_refinement_def
  phone_regex_def is_digit_def enum_defs

lemma processed_good_row:
  "processedRow good_csv_row =
     [(''fullName'', JStr ''John Doe''), (''email'', JStr []), (''phone'', JStr ''9876543210''),
      (''city'', JStr ''Chandigarh''), (''propertyType'', JStr ''Apartment''),
      (''bhk'', JStr ''3''), (''purpose'', JStr ''Buy''), (''budgetMin'', JNum 5000000),
      (''budgetMax'', JNum 7000000), (''timeline'', JStr ''0-3m''), (''source'', JStr ''Website''),
      (''notes'', JStr ''Looking for 3BHK''), (''tags'', JStr ''urgent,family''),
      (''status'', JStr ''New'')]"
  by (simp add: processedRow_def good_csv_row_def number_cell_def parseInt_def is_ws_def
      is_radix_digit_def is_digit_def digit_value_def)

lemma processed_no_bhk_row:
  "processedRow no_bhk_csv_row =
     [(''fullName'', JStr ''Jane Roe''), (''email'', JStr []), (''phone'', JStr ''9876543211''),
      (''city'', JStr ''Mohali''), (''propertyType'', JStr ''Apartment''),
      (''purpose'', JStr ''Rent''), (''budgetMin'', JUndefined), (''budgetMax'', JUndefined),
      (''timeline'', JStr ''3-6m''), (''source'', JStr ''Call''), (''notes'', JStr []),
      (''tags'', JStr []), (''status'', JStr ''New'')]"
  by (simp add: processedRow_def no_bhk_csv_row_def number_cell_def)

lemma good_row_passes: "csvRowSchema is_email (processedRow good_csv_row) = []"
  unfolding processed_good_row by (simp add: csv_eval_defs)

lemma no_bhk_row_fails:
  "csvRowSchema is_email (processedRow no_bhk_csv_row) =
     [Issue custom [''bhk''] (Some ''BHK is required for Apartment and Villa property types'')]"
  unfolding processed_no_bhk_row by (simp add: csv_eval_defs)

text \<open>
  A file of two rows, the second for an apartment without a bedroom count.  The schema
  raises the bedroom-count issue with its message for the second row; the answer names
  row 2 and holds no message.
\<close>

theorem importLeads_all_or_nothing_witness:
  "csvRowSchema (\<lambda>s. False) (processedRow no_bhk_csv_row) =
     [Issue custom [''bhk''] (Some ''BHK is required for Apartment and Villa property types'')] \<and>
   importLeads (\<lambda>s. False) 9 owner_u1 [good_csv_row, no_bhk_csv_row] example_store =
     (ImportRejected [(2, None)] 1 2, example_store)"
proof -
  have bad: "\<exists>row \<in> set [good_csv_row, no_bhk_csv_row].
      csvRowSchema (\<lambda>s. False) (processedRow row) \<noteq> []"
    by (simp add: no_bhk_row_fails)
  show ?thesis
    using importLeads_all_or_nothing[OF bad, of 9 owner_u1 example_store]
    by (simp add: prod_eq_iff good_row_passes no_bhk_row_fails enumerate_eq_zip)
qed

text \<open>
  The issues of a row with a malformed email and no bedroom count: the email issue comes
  from the text branch of the union and does not abort, so the refinements are run.
\<close>

lemma malformed_email_issue:
  assumes "\<not> is_email s" and "s \<noteq> []"
  shows "z_or (z_optional (z_string (matches is_email msg))) (z_literal []) (JStr s) =
           [Issue invalid_format [] msg]"
  using assms by (simp add: z_or_def z_optional_def z_string_def matches_def z_literal_def)

lemma malformed_email_row_issues:
  "csvRowSchema (\<lambda>s. False)
     (obj_set (processedRow no_bhk_csv_row) ''email'' (JStr ''jane'')) =
     [Issue invalid_format [''email''] (Some ''Invalid email format''),
      Issue custom [''bhk''] (Some ''BHK is required for Apartment and Villa property types'')]"
  unfolding processed_no_bhk_row by (simp add: csv_eval_defs)

section \<open>Properties of the list handler\<close>

lemma parse_shape_field_issue:
  "(key, el) \<in> set shape \<Longrightarrow> el (get input key) \<noteq> [] \<Longrightarrow> parse_shape shape input \<noteq> []"
  by (force simp: parse_shape_def)

lemma order_by_build_query:
  "order_by (build_query f) = (case sortBy f of JStr s \<Rightarrow> map_of validSortColumns s | _ \<Rightarrow> None)"
  by (simp add: build_query_def)

lemma sortBy_output:
  "sortBy (filters_output to_integer input) = or_default (JStr ''updatedAt'') (get input ''sortBy'')"
  by (simp add: filters_output_def)

text \<open>
  Claim C7, as amended.  A query that the list handler runs is ordered by one of the
  three allow-listed columns: the column that \<open>sortBy\<close> names, and
  \<open>b.updated_at\<close> when \<open>sortBy\<close> is absent.  A \<open>sortBy\<close> that is a non-empty
  string outside the allow-list is refused by the filter schema, and the request fails
  instead of falling back to the default.
\<close>

theorem listLeads_sort_column:
  "(\<forall>q. listLeads to_integer query_params = ListOk q \<longrightarrow>
      order_by q \<in> {Some ''b.updated_at'', Some ''b.full_name'', Some ''b.created_at''} \<and>
      (get query_params ''sortBy'' = JUndefined \<longrightarrow> order_by q = Some ''b.updated_at'') \<and>
      (\<forall>s. get query_params ''sortBy'' = JStr s \<longrightarrow> order_by q = map_of validSortColumns s)) \<and>
   (\<forall>s. get query_params ''sortBy'' = JStr s \<and> s \<noteq> [] \<and> s \<notin> set sort_keys \<longrightarrow>
      listLeads to_integer query_params = ListError)"
proof (intro conjI allI impI)
  fix q assume ok: "listLeads to_integer query_params = ListOk q"
  then have q: "q = build_query (filters_output to_integer query_params)"
    and acc: "store_accepts q"
    by (auto simp: listLeads_def Let_def split: if_splits)
  from acc have some: "order_by q \<noteq> None" by (simp add: store_accepts_def)
  show "order_by q \<in> {Some ''b.updated_at'', Some ''b.full_name'', Some ''b.created_at''}"
  proof (cases "sortBy (filters_output to_integer query_params)")
    case (JStr s)
    with q have "order_by q = map_of validSortColumns s" by (simp add: order_by_build_query)
    with some obtain c where "map_of validSortColumns s = Some c" "order_by q = Some c" by auto
    then show ?thesis by (auto simp: validSortColumns_def split: if_splits)
  qed (use q some in \<open>simp_all add: order_by_build_query\<close>)
  show "order_by q = Some ''b.updated_at''" if "get query_params ''sortBy'' = JUndefined"
    using q that by (simp add: order_by_build_query sortBy_output or_default_def validSortColumns_def)
  show "order_by q = map_of validSortColumns s" if "get query_params ''sortBy'' = JStr s" for s
    using q that by (simp add: order_by_build_query sortBy_output or_default_def)
next
  fix s assume a: "get query_params ''sortBy'' = JStr s \<and> s \<noteq> [] \<and> s \<notin> set sort_keys"
  have "(''sortBy'', z_default (z_or (z_enum sort_keys) (z_literal []))) \<in> set (filters_shape to_integer)"
    by (simp add: filters_shape_def)
  moreover have "z_default (z_or (z_enum sort_keys) (z_literal [])) (get query_params ''sortBy'') \<noteq> []"
    using a by (simp add: z_default_def z_or_def z_enum_def z_literal_def)
  ultimately have "filtersSchema to_integer query_params \<noteq> []"
    unfolding filtersSchema_def by (rule parse_shape_field_issue)
  then show "listLeads to_integer query_params = ListError"
    by (simp add: listLeads_def)
qed

lemma upper_examples: "toUpperCase ''desc'' = ''DESC''" "toUpperCase ''asc'' = ''ASC''"
  by code_simp+

lemmas list_eval_defs = listLeads_def filtersSchema_def parse_shape_def filters_shape_def
  filters_output_def build_query_def store_accepts_def get_def schema_defs enum_defs
  coerced_int_def number_or_empty_def or_default_def condition_def sort_keys_def
  validSortColumns_def upper_examples

lemma list_default:
  "listLeads (\<lambda>v. None) [] =
     ListOk \<lparr>conditions = [], search_pattern = None, order_by = Some ''b.updated_at'',
             direction = ''DESC'', limit_arg = JNum 10, offset_arg = JNum 0\<rparr>"
  by (simp add: list_eval_defs)

lemma list_by_name:
  "listLeads (\<lambda>v. None) [(''sortBy'', JStr ''fullName''), (''sortOrder'', JStr ''asc'')] =
     ListOk \<lparr>conditions = [], search_pattern = None, order_by = Some ''b.full_name'',
             direction = ''ASC'', limit_arg = JNum 10, offset_arg = JNum 0\<rparr>"
  by (simp add: list_eval_defs)

theorem listLeads_sort_column_witness:
  "order_by \<lparr>conditions = [], search_pattern = None, order_by = Some ''b.updated_at'',
             direction = ''DESC'', limit_arg = JNum 10, offset_arg = JNum 0\<rparr> =
     Some ''b.updated_at'' \<and>
   listLeads (\<lambda>v. None) [] =
     ListOk \<lparr>conditions = [], search_pattern = None, order_by = Some ''b.updated_at'',
             direction = ''DESC'', limit_arg = JNum 10, offset_arg = JNum 0\<rparr> \<and>
   listLeads (\<lambda>v. None) [(''sortBy'', JStr ''fullName''), (''sortOrder'', JStr ''asc'')] =
     ListOk \<lparr>conditions = [], search_pattern = None, order_by = Some ''b.full_name'',
             direction = ''ASC'', limit_arg = JNum 10, offset_arg = JNum 0\<rparr> \<and>
   listLeads (\<lambda>v. None) [(''sortBy'', JStr ''price'')] = ListError"
  using listLeads_sort_column[of "\<lambda>v. None" "[]"]
    listLeads_sort_column[of "\<lambda>v. None" "[(''sortBy'', JStr ''fullName''), (''sortOrder'', JStr ''asc'')]"]
    listLeads_sort_column[of "\<lambda>v. None" "[(''sortBy'', JStr ''price'')]"]
  by (simp add: list_default list_by_name get_def sort_keys_def)

text \<open>
  Claim C7 as stated fails: \<open>sortBy = price\<close> is outside the allow-list, and the
  handler answers with an error, not with a list sorted by \<open>updatedAt\<close>.
\<close>

theorem listLeads_unknown_sort_counterexample:
  "get [(''sortBy'', JStr ''price'')] ''sortBy'' = JStr ''price'' \<and>
   ''price'' \<notin> set sort_keys \<and>
   listLeads (\<lambda>v. None) [(''sortBy'', JStr ''price'')] = ListError"
  by (simp add: list_eval_defs)

section \<open>Properties of export followed by import\<close>

subsection \<open>Numbers and tags through their text\<close>

lemma digit_not_special:
  assumes "is_digit c"
  shows "\<not> is_ws c" and "c \<noteq> CHR ''-''" and "c \<noteq> CHR ''+''"
    and "c \<noteq> CHR ''x''" and "c \<noteq> CHR ''X''"
  using assms by (auto simp: is_digit_def is_ws_def)

lemma digit_char: "d < 10 \<Longrightarrow> is_digit (char_of (48 + d)) \<and> digit_value (char_of (48 + d)) = d"
  by (simp add: is_digit_def digit_value_def)

lemma decimal_nonempty: "decimal n \<noteq> []"
  by (subst decimal.simps) simp

lemma decimal_digits: "list_all is_digit (decimal n)"
proof (induction n rule: decimal.induct)
  case (1 n)
  show ?case
  proof (cases "n < 10")
    case True
    then show ?thesis by (subst decimal.simps) (simp add: digit_char)
  next
    case False
    with 1 have "list_all is_digit (decimal (n div 10))" by simp
    moreover have "is_digit (char_of (48 + n mod 10))" by (simp add: digit_char)
    ultimately show ?thesis using False by (subst decimal.simps) simp
  qed
qed

lemma decimal_value: "foldl (\<lambda>acc c. acc * 10 + digit_value c) 0 (decimal n) = n"
proof (induction n rule: decimal.induct)
  case (1 n)
  show ?case
  proof (cases "n < 10")
    case True
    then show ?thesis by (subst decimal.simps) (simp add: digit_char)
  next
    case False
    with 1 have "foldl (\<lambda>acc c. acc * 10 + digit_value c) 0 (decimal (n div 10)) = n div 10"
      by simp
    moreover have "digit_value (char_of (48 + n mod 10)) = n mod 10" by (simp add: digit_char)
    ultimately show ?thesis using False by (subst decimal.simps) simp
  qed
qed

lemma parseInt_decimal: "parseInt (decimal n) = JNum (int n)"
proof -
  obtain c cs where ds: "decimal n = c # cs"
    using decimal_nonempty[of n] by (cases "decimal n") auto
  have all: "list_all is_digit (c # cs)" using decimal_digits[of n] ds by simp
  then have c: "is_digit c" by simp
  note sp = digit_not_special[OF c]
  have hx: "(c = CHR ''0'' \<and> take (Suc 0) cs = ''x'') = False"
  proof (cases cs)
    case (Cons d ds')
    with all have "is_digit d" by simp
    then have "d \<noteq> CHR ''x''" by (rule digit_not_special)
    with Cons show ?thesis by simp
  qed simp
  have hX: "(c = CHR ''0'' \<and> take (Suc 0) cs = ''X'') = False"
  proof (cases cs)
    case (Cons d ds')
    with all have "is_digit d" by simp
    then have "d \<noteq> CHR ''X''" by (rule digit_not_special)
    with Cons show ?thesis by simp
  qed simp
  have rd: "is_radix_digit 10 c" using c by (simp add: is_radix_digit_def)
  have tw: "takeWhile (is_radix_digit 10) cs = cs"
    using all by (auto simp: takeWhile_eq_all_conv is_radix_digit_def list_all_iff)
  have val: "foldl (\<lambda>acc c. acc * 10 + digit_value c) (digit_value c) cs = n"
    using decimal_value[of n] ds by simp
  show ?thesis
    unfolding parseInt_def ds
    by (simp add: Let_def sp hx hX rd tw val)
qed

lemma split_on_prefix:
  "sep \<notin> set t \<Longrightarrow> split_on sep (t @ sep # rest) = t # split_on sep rest"
  by (induction t) auto

lemma split_on_single: "sep \<notin> set t \<Longrightarrow> split_on sep t = [t]"
  by (induction t) auto

lemma split_on_join:
  "ts \<noteq> [] \<Longrightarrow> \<forall>t \<in> set ts. sep \<notin> set t \<Longrightarrow> split_on sep (join [sep] ts) = ts"
proof (induction "[sep]" ts rule: join.induct)
  case 1
  then show ?case by simp
next
  case (2 x)
  then show ?case by (simp add: split_on_single)
next
  case (3 x y ys)
  then show ?case by (simp add: split_on_prefix)
qed

lemma join_nonempty: "ts \<noteq> [] \<Longrightarrow> hd ts \<noteq> [] \<Longrightarrow> join sep ts \<noteq> []"
  by (induction sep ts rule: join.induct) auto

lemma csv_tags_join:
  assumes "list_all (\<lambda>t. t \<noteq> [] \<and> CHR '','' \<notin> set t \<and> trim t = t) ts"
  shows "csv_tags (JStr (join '','' ts)) = JArr ts"
proof (cases "ts = []")
  case True
  then show ?thesis by (simp add: csv_tags_def)
next
  case False
  from assms have clean: "\<forall>t \<in> set ts. t \<noteq> [] \<and> CHR '','' \<notin> set t \<and> trim t = t"
    by (simp add: list_all_iff)
  with False have "hd ts \<noteq> []" by (cases ts) auto
  with False have ne: "join '','' ts \<noteq> []" by (rule join_nonempty)
  have sp: "split_on CHR '','' (join '','' ts) = ts"
    using False clean by (intro split_on_join) auto
  have "map trim ts = ts" using clean by (simp add: map_idI)
  moreover have "filter (\<lambda>tag. 0 < length tag) ts = ts" using clean by (simp add: filter_id_conv)
  ultimately show ?thesis using ne sp by (simp add: csv_tags_def)
qed

subsection \<open>One lead through export and import\<close>

lemma processed_export:
  "processedRow (export_record (export_select b)) =
     [(''fullName'', JStr (csv_text (b ''full_name''))),
      (''email'', JStr (csv_text (b ''email''))),
      (''phone'', JStr (csv_text (b ''phone''))),
      (''city'', JStr (csv_text (b ''city''))),
      (''propertyType'', JStr (csv_text (b ''property_type''))),
      (''bhk'', JStr (csv_text (b ''bhk''))),
      (''purpose'', JStr (csv_text (b ''purpose''))),
      (''budgetMin'', if csv_text (b ''budget_min'') \<noteq> []
                      then parseInt (csv_text (b ''budget_min'')) else JUndefined),
      (''budgetMax'', if csv_text (b ''budget_max'') \<noteq> []
                      then parseInt (csv_text (b ''budget_max'')) else JUndefined),
      (''timeline'', JStr (csv_text (b ''timeline''))),
      (''source'', JStr (csv_text (b ''source''))),
      (''status'', JStr (csv_text (b ''status''))),
      (''notes'', JStr (csv_text (b ''notes''))),
      (''tags'', JStr (csv_text (array_to_string (b ''tags'') '','')))]"
  by (simp add: processedRow_def export_record_def export_select_def buyer_keys_def get_def
      number_cell_def)

lemma get_csvRow_output:
  assumes "key \<in> set buyer_keys"
  shows "get (csvRow_output input) key =
     (if key = ''status''
      then (if get input key = JUndefined then JStr ''New'' else get input key)
      else if key = ''tags'' then csv_tags (get input key)
      else get input key)"
proof -
  let ?f = "\<lambda>key. if key = ''status''
      then (if get input key = JUndefined then JStr ''New'' else get input key)
      else if key = ''tags'' then csv_tags (get input key)
      else get input key"
  have "map_of (csvRow_output input) key =
      (if key \<in> set buyer_keys \<and> (?f key \<noteq> JUndefined \<or> key \<in> fst ` set input)
       then Some (?f key) else None)"
    unfolding csvRow_output_def by (rule map_of_filter_map)
  with assms show ?thesis by (auto simp: get_def)
qed


lemma reimportableD:
  assumes "reimportable is_email b"
  shows "buyers_constraints b"
    and "b ''bhk'' \<noteq> JNull"
    and "b ''status'' \<noteq> JNull"
    and "case b ''email'' of JNull \<Rightarrow> True | JStr e \<Rightarrow> e \<noteq> [] \<and> is_email e | _ \<Rightarrow> False"
    and "b ''notes'' \<noteq> JStr []"
    and "b ''budget_min'' \<noteq> JNum 0"
    and "b ''budget_max'' \<noteq> JNum 0"
    and "case b ''tags'' of
           JArr ts \<Rightarrow> list_all (\<lambda>t. t \<noteq> [] \<and> CHR '','' \<notin> set t \<and> trim t = t) ts
         | _ \<Rightarrow> False"
  using assms unfolding reimportable_def by blast+

text \<open>A cell that holds text comes back as the column's value.\<close>

lemma text_cell: "v = JStr s \<Longrightarrow> JStr (csv_text v) = v"
  by simp

lemma col_in_text: "col_in opts v \<Longrightarrow> JStr (csv_text v) = v"
  by (cases v) (simp_all add: col_in_def)

lemma col_in_enum: "col_in opts v \<Longrightarrow> z_enum opts v = []"
  by (cases v) (simp_all add: col_in_def z_enum_def)

lemma col_in_defined: "col_in opts v \<Longrightarrow> v \<noteq> JUndefined \<and> pg_param v = v"
  by (cases v) (simp_all add: col_in_def pg_param_def)

lemma col_in_truthy: "col_in opts v \<Longrightarrow> [] \<notin> set opts \<Longrightarrow> truthy v"
  by (cases v) (auto simp: col_in_def)

lemma budget_cell:
  assumes "nullable int4_nonneg v" and "v \<noteq> JNum 0"
  shows "(if csv_text v \<noteq> [] then parseInt (csv_text v) else JUndefined) =
         (if v = JNull then JUndefined else v)"
proof (cases "v = JNull")
  case True
  then show ?thesis by simp
next
  case False
  with assms(1) obtain n where v: "v = JNum n" and n: "0 \<le> n"
    by (cases v) (auto simp: nullable_def int4_nonneg_def)
  from n have "parseInt (decimal (nat n)) = JNum n" by (simp add: parseInt_decimal)
  with v n show ?thesis by (simp add: decimal_nonempty)
qed

lemma budget_field:
  assumes "nullable int4_nonneg v"
  shows "z_optional budget_number (if v = JNull then JUndefined else v) = []"
  using assms by (cases v) (auto simp: nullable_def int4_nonneg_def z_optional_def budget_number_def)

lemma budget_insert:
  assumes "nullable int4_nonneg v" and "v \<noteq> JNum 0"
  shows "js_or (if v = JNull then JUndefined else v) JNull = v"
  using assms by (cases v) (auto simp: nullable_def int4_nonneg_def js_or_def)

lemma email_field:
  assumes "case v of JNull \<Rightarrow> True | JStr e \<Rightarrow> e \<noteq> [] \<and> is_email e | _ \<Rightarrow> False"
  shows "z_or (z_optional (z_string (matches is_email msg))) (z_literal []) (JStr (csv_text v)) = []"
    and "js_or (JStr (csv_text v)) JNull = v"
  using assms by (cases v; simp add: z_or_def z_optional_def z_string_def matches_def z_literal_def js_or_def)+

lemma notes_field:
  assumes "nullable (\<lambda>v. case v of JStr s \<Rightarrow> length s \<le> 1000 | _ \<Rightarrow> False) v" and "v \<noteq> JStr []"
  shows "z_optional (z_string (max_length 1000 msg)) (JStr (csv_text v)) = []"
    and "js_or (JStr (csv_text v)) JNull = v"
  using assms
  by (cases v; simp add: nullable_def z_optional_def z_string_def max_length_def js_or_def)+

lemma name_field:
  assumes "varchar 80 v" and "case v of JStr s \<Rightarrow> 2 \<le> length s | _ \<Rightarrow> False"
  shows "z_string (\<lambda>s. min_length 2 m1 s @ max_length 80 m2 s) v = []"
    and "JStr (csv_text v) = v" and "pg_param v = v"
  using assms
  by (cases v; simp add: varchar_def z_string_def min_length_def max_length_def pg_param_def)+

lemma phone_field:
  assumes "case v of JStr s \<Rightarrow> phone_regex s | _ \<Rightarrow> False"
  shows "phoneSchema v = []" and "JStr (csv_text v) = v" and "pg_param v = v"
  using assms
  by (cases v; simp add: phoneSchema_def z_string_def matches_def pg_param_def)+

lemma nullable_set: "nullable P v \<Longrightarrow> v \<noteq> JNull \<Longrightarrow> P v"
  by (simp add: nullable_def)


lemma enum_nonempty:
  "[] \<notin> set BHKEnum" "[] \<notin> set StatusEnum"
  by (simp_all add: BHKEnum_def StatusEnum_def)

text \<open>The row that import builds from the exported record of a lead.\<close>

lemma processed_reimportable:
  assumes r: "reimportable is_email b"
  obtains ts where "b ''tags'' = JArr ts"
    and "list_all (\<lambda>t. t \<noteq> [] \<and> CHR '','' \<notin> set t \<and> trim t = t) ts"
    and "processedRow (export_record (export_select b)) =
     [(''fullName'', b ''full_name''),
      (''email'', JStr (csv_text (b ''email''))),
      (''phone'', b ''phone''),
      (''city'', b ''city''),
      (''propertyType'', b ''property_type''),
      (''bhk'', b ''bhk''),
      (''purpose'', b ''purpose''),
      (''budgetMin'', if b ''budget_min'' = JNull then JUndefined else b ''budget_min''),
      (''budgetMax'', if b ''budget_max'' = JNull then JUndefined else b ''budget_max''),
      (''timeline'', b ''timeline''),
      (''source'', b ''source''),
      (''status'', b ''status''),
      (''notes'', JStr (csv_text (b ''notes''))),
      (''tags'', JStr (join '','' ts))]"
proof -
  note d = reimportableD[OF r]
  note c = buyers_constraintsD[OF d(1)]
  from d(8) obtain ts where ts: "b ''tags'' = JArr ts"
    and clean: "list_all (\<lambda>t. t \<noteq> [] \<and> CHR '','' \<notin> set t \<and> trim t = t) ts"
    by (cases "b ''tags''") auto
  have bhk: "col_in BHKEnum (b ''bhk'')" by (rule nullable_set[OF c(8) d(2)])
  have st: "col_in StatusEnum (b ''status'')" by (rule nullable_set[OF c(14) d(3)])
  have tags: "JStr (csv_text (array_to_string (b ''tags'') '','')) = JStr (join '','' ts)"
    by (simp add: ts array_to_string_def)
  have "processedRow (export_record (export_select b)) =
     [(''fullName'', b ''full_name''),
      (''email'', JStr (csv_text (b ''email''))),
      (''phone'', b ''phone''),
      (''city'', b ''city''),
      (''propertyType'', b ''property_type''),
      (''bhk'', b ''bhk''),
      (''purpose'', b ''purpose''),
      (''budgetMin'', if b ''budget_min'' = JNull then JUndefined else b ''budget_min''),
      (''budgetMax'', if b ''budget_max'' = JNull then JUndefined else b ''budget_max''),
      (''timeline'', b ''timeline''),
      (''source'', b ''source''),
      (''status'', b ''status''),
      (''notes'', JStr (csv_text (b ''notes''))),
      (''tags'', JStr (join '','' ts))]"
    unfolding processed_export
    by (simp only: name_field(2)[OF c(1,2)] phone_field(2)[OF c(5)] col_in_text[OF c(6)]
        col_in_text[OF c(7)] col_in_text[OF bhk] col_in_text[OF c(9)] col_in_text[OF c(12)]
        col_in_text[OF c(13)] col_in_text[OF st] budget_cell[OF c(10) d(6)]
        budget_cell[OF c(11) d(7)] tags)
  with ts clean show ?thesis by (rule that)
qed

lemma reimport_row_valid:
  assumes r: "reimportable is_email b"
  shows "csvRowSchema is_email (processedRow (export_record (export_select b))) = []"
proof -
  note d = reimportableD[OF r]
  note c = buyers_constraintsD[OF d(1)]
  from processed_reimportable[OF r] obtain ts where ts: "b ''tags'' = JArr ts"
    and P: "processedRow (export_record (export_select b)) =
     [(''fullName'', b ''full_name''),
      (''email'', JStr (csv_text (b ''email''))),
      (''phone'', b ''phone''),
      (''city'', b ''city''),
      (''propertyType'', b ''property_type''),
      (''bhk'', b ''bhk''),
      (''purpose'', b ''purpose''),
      (''budgetMin'', if b ''budget_min'' = JNull then JUndefined else b ''budget_min''),
      (''budgetMax'', if b ''budget_max'' = JNull then JUndefined else b ''budget_max''),
      (''timeline'', b ''timeline''),
      (''source'', b ''source''),
      (''status'', b ''status''),
      (''notes'', JStr (csv_text (b ''notes''))),
      (''tags'', JStr (join '','' ts))]" (is "?P = ?L")
    by blast
  have bhk: "col_in BHKEnum (b ''bhk'')" by (rule nullable_set[OF c(8) d(2)])
  have st: "col_in StatusEnum (b ''status'')" by (rule nullable_set[OF c(14) d(3)])
  have f_bhk: "z_optional (z_enum BHKEnum) (b ''bhk'') = []"
    by (simp add: z_optional_def col_in_enum[OF bhk])
  have f_st: "z_default (z_enum StatusEnum) (b ''status'') = []"
    by (simp add: z_default_def col_in_enum[OF st])
  have f_tags: "z_optional (z_string (\<lambda>s. [])) (JStr (join '','' ts)) = []"
    by (simp add: z_optional_def z_string_def)
  have fields: "parse_shape (csv_shape is_email) ?L = []"
    by (simp add: parse_shape_def csv_shape_def buyer_shape_def get_def
        name_field(1)[OF c(1,2)] email_field(1)[OF d(4)] phone_field(1)[OF c(5)]
        col_in_enum[OF c(6)] col_in_enum[OF c(7)] f_bhk col_in_enum[OF c(9)]
        budget_field[OF c(10)] budget_field[OF c(11)] col_in_enum[OF c(12)]
        col_in_enum[OF c(13)] f_st notes_field(1)[OF c(15) d(5)] f_tags)
  have r1: "bhk_refinement ?L"
    using col_in_truthy[OF bhk enum_nonempty(1)] by (simp add: bhk_refinement_def get_def)
  have r2: "budget_refinement ?L"
  proof (cases "b ''budget_min'' = JNull \<or> b ''budget_max'' = JNull")
    case True
    then show ?thesis by (auto simp: budget_refinement_def get_def)
  next
    case False
    with c(10,11) obtain lo hi where lh: "b ''budget_min'' = JNum lo" "b ''budget_max'' = JNum hi"
      by (cases "b ''budget_min''"; cases "b ''budget_max''")
         (auto simp: nullable_def int4_nonneg_def)
    with c(18) have "lo \<le> hi" by (simp add: budget_check_def)
    with lh show ?thesis by (simp add: budget_refinement_def get_def)
  qed
  show ?thesis
    unfolding P csvRowSchema_def refined_def
    by (simp add: fields refinements_def r1 r2)
qed

lemma insert_values_columns:
  "insert_values owner row ''full_name'' = pg_param (get row ''fullName'')"
  "insert_values owner row ''email'' = js_or (get row ''email'') JNull"
  "insert_values owner row ''phone'' = pg_param (get row ''phone'')"
  "insert_values owner row ''city'' = pg_param (get row ''city'')"
  "insert_values owner row ''property_type'' = pg_param (get row ''propertyType'')"
  "insert_values owner row ''bhk'' = js_or (get row ''bhk'') JNull"
  "insert_values owner row ''purpose'' = pg_param (get row ''purpose'')"
  "insert_values owner row ''budget_min'' = js_or (get row ''budgetMin'') JNull"
  "insert_values owner row ''budget_max'' = js_or (get row ''budgetMax'') JNull"
  "insert_values owner row ''timeline'' = pg_param (get row ''timeline'')"
  "insert_values owner row ''source'' = pg_param (get row ''source'')"
  "insert_values owner row ''status'' = js_or (get row ''status'') (JStr ''New'')"
  "insert_values owner row ''notes'' = js_or (get row ''notes'') JNull"
  "insert_values owner row ''tags'' = js_or (get row ''tags'') (JArr [])"
  "insert_values owner row ''owner_id'' = JStr owner"
  by (simp_all add: insert_values_def)

lemma output_keys:
  "get (csvRow_output input) ''fullName'' = get input ''fullName''"
  "get (csvRow_output input) ''email'' = get input ''email''"
  "get (csvRow_output input) ''phone'' = get input ''phone''"
  "get (csvRow_output input) ''city'' = get input ''city''"
  "get (csvRow_output input) ''propertyType'' = get input ''propertyType''"
  "get (csvRow_output input) ''bhk'' = get input ''bhk''"
  "get (csvRow_output input) ''purpose'' = get input ''purpose''"
  "get (csvRow_output input) ''budgetMin'' = get input ''budgetMin''"
  "get (csvRow_output input) ''budgetMax'' = get input ''budgetMax''"
  "get (csvRow_output input) ''timeline'' = get input ''timeline''"
  "get (csvRow_output input) ''source'' = get input ''source''"
  "get (csvRow_output input) ''status'' =
     (if get input ''status'' = JUndefined then JStr ''New'' else get input ''status'')"
  "get (csvRow_output input) ''notes'' = get input ''notes''"
  "get (csvRow_output input) ''tags'' = csv_tags (get input ''tags'')"
  by (simp_all add: get_csvRow_output buyer_keys_def)

text \<open>The row that is inserted for the exported record of a lead has the lead's columns.\<close>

lemma reimport_row_columns:
  assumes r: "reimportable is_email b"
    and c: "c \<in> set domain_columns"
  shows "insert_values owner (csvRow_output (processedRow (export_record (export_select b)))) c
         = b c"
proof -
  note d = reimportableD[OF r]
  note k = buyers_constraintsD[OF d(1)]
  from processed_reimportable[OF r] obtain ts where ts: "b ''tags'' = JArr ts"
    and clean: "list_all (\<lambda>t. t \<noteq> [] \<and> CHR '','' \<notin> set t \<and> trim t = t) ts"
    and P: "processedRow (export_record (export_select b)) =
     [(''fullName'', b ''full_name''),
      (''email'', JStr (csv_text (b ''email''))),
      (''phone'', b ''phone''),
      (''city'', b ''city''),
      (''propertyType'', b ''property_type''),
      (''bhk'', b ''bhk''),
      (''purpose'', b ''purpose''),
      (''budgetMin'', if b ''budget_min'' = JNull then JUndefined else b ''budget_min''),
      (''budgetMax'', if b ''budget_max'' = JNull then JUndefined else b ''budget_max''),
      (''timeline'', b ''timeline''),
      (''source'', b ''source''),
      (''status'', b ''status''),
      (''notes'', JStr (csv_text (b ''notes''))),
      (''tags'', JStr (join '','' ts))]" (is "?P = ?L")
    by blast
  have bhk: "col_in BHKEnum (b ''bhk'')" by (rule nullable_set[OF k(8) d(2)])
  have st: "col_in StatusEnum (b ''status'')" by (rule nullable_set[OF k(14) d(3)])
  have g: "get ?L ''fullName'' = b ''full_name''"
    "get ?L ''email'' = JStr (csv_text (b ''email''))"
    "get ?L ''phone'' = b ''phone''"
    "get ?L ''city'' = b ''city''"
    "get ?L ''propertyType'' = b ''property_type''"
    "get ?L ''bhk'' = b ''bhk''"
    "get ?L ''purpose'' = b ''purpose''"
    "get ?L ''budgetMin'' = (if b ''budget_min'' = JNull then JUndefined else b ''budget_min'')"
    "get ?L ''budgetMax'' = (if b ''budget_max'' = JNull then JUndefined else b ''budget_max'')"
    "get ?L ''timeline'' = b ''timeline''"
    "get ?L ''source'' = b ''source''"
    "get ?L ''status'' = b ''status''"
    "get ?L ''notes'' = JStr (csv_text (b ''notes''))"
    "get ?L ''tags'' = JStr (join '','' ts)"
    by (simp_all add: get_def)
  have v1: "insert_values owner (csvRow_output ?L) ''full_name'' = b ''full_name''"
    by (simp only: insert_values_columns output_keys g name_field(3)[OF k(1,2)])
  have v2: "insert_values owner (csvRow_output ?L) ''email'' = b ''email''"
    by (simp only: insert_values_columns output_keys g email_field(2)[OF d(4)])
  have v3: "insert_values owner (csvRow_output ?L) ''phone'' = b ''phone''"
    by (simp only: insert_values_columns output_keys g phone_field(3)[OF k(5)])
  have v4: "insert_values owner (csvRow_output ?L) ''city'' = b ''city''"
    using col_in_defined[OF k(6)] by (simp only: insert_values_columns output_keys g)
  have v5: "insert_values owner (csvRow_output ?L) ''property_type'' = b ''property_type''"
    using col_in_defined[OF k(7)] by (simp only: insert_values_columns output_keys g)
  have v6: "insert_values owner (csvRow_output ?L) ''bhk'' = b ''bhk''"
    using col_in_truthy[OF bhk enum_nonempty(1)]
    by (simp add: insert_values_columns output_keys g js_or_def)
  have v7: "insert_values owner (csvRow_output ?L) ''purpose'' = b ''purpose''"
    using col_in_defined[OF k(9)] by (simp only: insert_values_columns output_keys g)
  have v8: "insert_values owner (csvRow_output ?L) ''budget_min'' = b ''budget_min''"
    by (simp only: insert_values_columns output_keys g budget_insert[OF k(10) d(6)])
  have v9: "insert_values owner (csvRow_output ?L) ''budget_max'' = b ''budget_max''"
    by (simp only: insert_values_columns output_keys g budget_insert[OF k(11) d(7)])
  have v10: "insert_values owner (csvRow_output ?L) ''timeline'' = b ''timeline''"
    using col_in_defined[OF k(12)] by (simp only: insert_values_columns output_keys g)
  have v11: "insert_values owner (csvRow_output ?L) ''source'' = b ''source''"
    using col_in_defined[OF k(13)] by (simp only: insert_values_columns output_keys g)
  have v12: "insert_values owner (csvRow_output ?L) ''status'' = b ''status''"
    using col_in_truthy[OF st enum_nonempty(2)] col_in_defined[OF st]
    by (simp add: insert_values_columns output_keys g js_or_def)
  have v13: "insert_values owner (csvRow_output ?L) ''notes'' = b ''notes''"
    by (simp only: insert_values_columns output_keys g notes_field(2)[OF k(15) d(5)])
  have v14: "insert_values owner (csvRow_output ?L) ''tags'' = b ''tags''"
    by (simp add: insert_values_columns output_keys g csv_tags_join[OF clean] js_or_def ts)
  have "list_all (\<lambda>c. insert_values owner (csvRow_output ?L) c = b c) domain_columns"
    unfolding domain_columns_def
    by (simp add: v1 v2 v3 v4 v5 v6 v7 v8 v9 v10 v11 v12 v13 v14)
  with c show ?thesis
    unfolding P by (simp only: list_all_iff)
qed

lemma constraints_same_columns:
  assumes ok: "buyers_constraints b"
    and same: "\<And>c. c \<in> set domain_columns \<Longrightarrow> r c = b c"
    and owner: "r ''owner_id'' = JStr uid" "uid \<noteq> []"
  shows "buyers_constraints r"
proof -
  note k = buyers_constraintsD[OF ok]
  have e: "r ''full_name'' = b ''full_name''" "r ''email'' = b ''email''"
    "r ''phone'' = b ''phone''" "r ''city'' = b ''city''"
    "r ''property_type'' = b ''property_type''" "r ''bhk'' = b ''bhk''"
    "r ''purpose'' = b ''purpose''" "r ''budget_min'' = b ''budget_min''"
    "r ''budget_max'' = b ''budget_max''" "r ''timeline'' = b ''timeline''"
    "r ''source'' = b ''source''" "r ''status'' = b ''status''"
    "r ''notes'' = b ''notes''" "r ''tags'' = b ''tags''"
    by (simp_all add: same domain_columns_def)
  have bc: "budget_check r" using k(18) by (simp add: budget_check_def e)
  have hc: "bhk_required_check r" using k(19) by (simp add: bhk_required_check_def e)
  have oc: "case r ''owner_id'' of JStr u \<Rightarrow> u \<noteq> [] | _ \<Rightarrow> False" using owner by simp
  show ?thesis
    unfolding buyers_constraints_def
    using k(1-16) bc hc oc by (simp only: e simp_thms)
qed

subsection \<open>The round trip\<close>

lemma insert_rows_all:
  assumes "\<forall>row \<in> set vrows. buyers_constraints
      (with_defaults now (insert_values (user_id u) row))"
  shows "\<exists>st'. insert_rows now u vrows acc st =
      Some (acc @ map (\<lambda>row. with_defaults now (insert_values (user_id u) row)) vrows, st') \<and>
      map snd (buyers st') =
        map snd (buyers st) @
        map (\<lambda>row. with_defaults now (insert_values (user_id u) row)) vrows"
  using assms
proof (induction vrows arbitrary: acc st)
  case Nil
  then show ?case by simp
next
  case (Cons row vrows)
  let ?buyer = "with_defaults now (insert_values (user_id u) row)"
  let ?st1 = "recordHistory (next_id st) (user_id u) (Imported row)
      (st\<lparr>buyers := buyers st @ [(next_id st, ?buyer)], next_id := Suc (next_id st)\<rparr>)"
  have ok: "buyers_constraints ?buyer"
    by (rule bspec[OF Cons.prems]) simp
  have rest: "\<forall>row \<in> set vrows. buyers_constraints
      (with_defaults now (insert_values (user_id u) row))"
    by (intro ballI, rule bspec[OF Cons.prems]) simp
  have step: "insert_rows now u (row # vrows) acc st = insert_rows now u vrows (acc @ [?buyer]) ?st1"
    using ok by (simp add: insert_buyer_def Let_def)
  from Cons.IH[OF rest, of "acc @ [?buyer]" ?st1] obtain st' where
    "insert_rows now u vrows (acc @ [?buyer]) ?st1 =
       Some ((acc @ [?buyer]) @ map (\<lambda>row. with_defaults now (insert_values (user_id u) row)) vrows, st')"
    and "map snd (buyers st') = map snd (buyers ?st1) @
        map (\<lambda>row. with_defaults now (insert_values (user_id u) row)) vrows"
    by blast
  then show ?case
    unfolding step by (intro exI[where x=st']) (simp add: recordHistory_def)
qed

text \<open>
  Claim C8, as amended.  Take between 1 and 200 leads, each of them a row the table
  accepts with \<open>bhk\<close> and \<open>status\<close> set, an email that is \<open>NULL\<close> or non-empty and
  well formed, notes other than the empty string, budget bounds other than zero, and
  tags that are non-empty, hold no comma and no surrounding white space.  Exporting them
  and importing the exported records, as a user with an id, succeeds and inserts one lead
  for each, in order, equal to the original in each of the fourteen domain columns; the
  owner of every inserted lead is the importing user.
\<close>

theorem export_import_round_trip:
  assumes "rows \<noteq> []" and "length rows \<le> 200"
    and "\<forall>b \<in> set rows. reimportable is_email b"
    and "user_id u \<noteq> []"
  shows "\<exists>inserted st'.
     importLeads is_email now u (exportLeads rows) st = (ImportOk (length rows) inserted, st') \<and>
     length inserted = length rows \<and>
     (\<forall>i < length rows. \<forall>c \<in> set domain_columns. (inserted ! i) c = (rows ! i) c) \<and>
     (\<forall>i < length rows. (inserted ! i) ''owner_id'' = JStr (user_id u)) \<and>
     map snd (buyers st') = map snd (buyers st) @ inserted"
proof -
  let ?valid = "\<lambda>row. csvRowSchema is_email (processedRow row) = []"
  let ?out = "\<lambda>b. csvRow_output (processedRow (export_record (export_select b)))"
  let ?ins = "\<lambda>row. with_defaults now (insert_values (user_id u) row)"
  have all_valid: "\<forall>row \<in> set (exportLeads rows). ?valid row"
    using assms(3) by (auto simp: exportLeads_def reimport_row_valid)
  then have keep: "filter ?valid (exportLeads rows) = exportLeads rows"
    by (simp add: filter_id_conv)
  have none: "filter (\<lambda>(i, row). csvRowSchema is_email (processedRow row) \<noteq> [])
      (enumerate (Suc 0) (exportLeads rows)) = []"
    using all_valid by (auto simp: filter_empty_conv in_set_enumerate_eq)
  have validated: "validate_rows is_email (exportLeads rows) 0 ([], []) = (map ?out rows, [])"
    by (simp add: validate_rows_eq keep none) (simp add: exportLeads_def comp_def)
  have cols: "?ins (?out b) c = b c" if "b \<in> set rows" "c \<in> set domain_columns" for b c
  proof -
    from that(1) assms(3) have r: "reimportable is_email b" by blast
    from that(2) have "c \<noteq> ''created_at''" "c \<noteq> ''updated_at''"
      by (auto simp: domain_columns_def)
    then show ?thesis
      using reimport_row_columns[OF r that(2), of "user_id u"] by (simp add: with_defaults_def)
  qed
  have owner: "?ins (?out b) ''owner_id'' = JStr (user_id u)" for b
    by (simp add: insert_values_columns with_defaults_def)
  have accepted: "\<forall>row \<in> set (map ?out rows). buyers_constraints (?ins row)"
  proof
    fix row assume "row \<in> set (map ?out rows)"
    then obtain b where b: "b \<in> set rows" and row: "row = ?out b" by auto
    with assms(3) have "buyers_constraints b" by (auto dest: reimportableD(1))
    then have "buyers_constraints (?ins (?out b))"
    proof (rule constraints_same_columns)
      show "?ins (?out b) c = b c" if "c \<in> set domain_columns" for c
        using cols[OF b that] .
      show "?ins (?out b) ''owner_id'' = JStr (user_id u)" by (rule owner)
      show "user_id u \<noteq> []" by (rule assms(4))
    qed
    with row show "buyers_constraints (?ins row)" by blast
  qed
  from insert_rows_all[OF accepted, of "[]" st] obtain st' where
    ins: "insert_rows now u (map ?out rows) [] st = Some (map ?ins (map ?out rows), st')"
    and tbl: "map snd (buyers st') = map snd (buyers st) @ map ?ins (map ?out rows)"
    by auto
  let ?inserted = "map ?ins (map ?out rows)"
  have "importLeads is_email now u (exportLeads rows) st = (ImportOk (length rows) ?inserted, st')"
    using assms(1,2) by (simp add: importLeads_def validated ins) (simp add: exportLeads_def)
  moreover have "length ?inserted = length rows" by simp
  moreover have "\<forall>i < length rows. \<forall>c \<in> set domain_columns. (?inserted ! i) c = (rows ! i) c"
    using cols by simp
  moreover have "\<forall>i < length rows. (?inserted ! i) ''owner_id'' = JStr (user_id u)"
    using owner by simp
  ultimately show ?thesis using tbl by blast
qed

lemma trim_examples:
  "trim ''premium'' = ''premium''" "trim ''garden'' = ''garden''"
  "trim ''sea view'' = ''sea view''" "trim '' garden'' = ''garden''"
  by (simp_all add: trim_def is_ws_def)

lemma villa_reimportable: "reimportable (\<lambda>s. False) villa_lead"
  by (simp add: reimportable_def villa_lead_def constraint_defs trim_examples)

theorem export_import_round_trip_witness:
  "\<exists>inserted st'.
     importLeads (\<lambda>s. False) 9 other_u2 (exportLeads [villa_lead]) example_store =
       (ImportOk 1 inserted, st') \<and>
     map (inserted ! 0) domain_columns = map villa_lead domain_columns \<and>
     (inserted ! 0) ''owner_id'' = JStr ''u2''"
proof -
  have r: "\<forall>b \<in> set [villa_lead]. reimportable (\<lambda>s. False) b"
    by (simp add: villa_reimportable)
  have u: "user_id other_u2 \<noteq> []" by (simp add: other_u2_def)
  from export_import_round_trip[OF _ _ r u, of 9 example_store]
  obtain inserted st' where
    "importLeads (\<lambda>s. False) 9 other_u2 (exportLeads [villa_lead]) example_store =
       (ImportOk 1 inserted, st')"
    and "\<forall>c \<in> set domain_columns. (inserted ! 0) c = villa_lead c"
    and "(inserted ! 0) ''owner_id'' = JStr (user_id other_u2)"
    by auto
  then show ?thesis by (auto simp: other_u2_def)
qed

lemma processed_comma_tag_lead:
  "processedRow (export_record (export_select comma_tag_lead)) =
     [(''fullName'', JStr ''Priya Sharma''), (''email'', JStr []), (''phone'', JStr ''9876543211''),
      (''city'', JStr ''Mohali''), (''propertyType'', JStr ''Villa''), (''bhk'', JStr ''4''),
      (''purpose'', JStr ''Buy''), (''budgetMin'', JNum 8000000), (''budgetMax'', JUndefined),
      (''timeline'', JStr ''3-6m''), (''source'', JStr ''Referral''),
      (''status'', JStr ''Qualified''), (''notes'', JStr []), (''tags'', JStr ''sea view, garden'')]"
proof -
  have "parseInt (decimal 8000000) = JNum 8000000"
    using parseInt_decimal[of 8000000] by simp
  then show ?thesis
    unfolding processed_export
    by (simp add: comma_tag_lead_def villa_lead_def array_to_string_def decimal_nonempty)
qed

lemma comma_tag_row_passes:
  "csvRowSchema (\<lambda>s. False) (processedRow (export_record (export_select comma_tag_lead))) = []"
  unfolding processed_comma_tag_lead by (simp add: csv_eval_defs)

lemma comma_tag_split: "split_on CHR '','' ''sea view, garden'' = [''sea view'', '' garden'']"
  by simp

lemma comma_tag_output:
  "csvRow_output (processedRow (export_record (export_select comma_tag_lead))) =
     [(''fullName'', JStr ''Priya Sharma''), (''email'', JStr []), (''phone'', JStr ''9876543211''),
      (''city'', JStr ''Mohali''), (''propertyType'', JStr ''Villa''), (''bhk'', JStr ''4''),
      (''purpose'', JStr ''Buy''), (''budgetMin'', JNum 8000000), (''budgetMax'', JUndefined),
      (''timeline'', JStr ''3-6m''), (''source'', JStr ''Referral''),
      (''status'', JStr ''Qualified''), (''notes'', JStr []),
      (''tags'', JArr [''sea view'', ''garden''])]"
  unfolding processed_comma_tag_lead
  by (simp add: csvRow_output_def buyer_keys_def get_def csv_tags_def comma_tag_split trim_examples)

lemma comma_tag_row_accepted:
  "buyers_constraints
     (with_defaults 9
        (insert_values ''u1''
           (csvRow_output (processedRow (export_record (export_select comma_tag_lead))))))"
  unfolding comma_tag_output
  by (simp add: with_defaults_def insert_values_def get_def pg_param_def js_or_def constraint_defs)

text \<open>
  Claim C8 as stated fails: the lead \<open>comma_tag_lead\<close> has the single tag
  \<open>sea view, garden\<close>; export joins the tags with commas and import splits the cell at
  commas, so the lead comes back with the two tags \<open>sea view\<close> and \<open>garden\<close>.
\<close>

theorem export_import_comma_tag_counterexample:
  "\<exists>inserted st'.
     importLeads (\<lambda>s. False) 9 owner_u1 (exportLeads [comma_tag_lead]) example_store =
       (ImportOk 1 inserted, st') \<and>
     (inserted ! 0) ''tags'' = JArr [''sea view'', ''garden''] \<and>
     comma_tag_lead ''tags'' = JArr [''sea view, garden'']"
proof -
  let ?out = "csvRow_output (processedRow (export_record (export_select comma_tag_lead)))"
  let ?row = "with_defaults 9 (insert_values ''u1'' ?out)"
  have v: "validate_rows (\<lambda>s. False) (exportLeads [comma_tag_lead]) 0 ([], []) = ([?out], [])"
    by (simp add: exportLeads_def comma_tag_row_passes)
  have i: "\<exists>st'. insert_rows 9 owner_u1 [?out] [] example_store = Some ([?row], st')"
    using comma_tag_row_accepted by (simp add: insert_buyer_def Let_def owner_u1_def)
  then obtain st' where
    "insert_rows 9 owner_u1 [?out] [] example_store = Some ([?row], st')" ..
  then have "importLeads (\<lambda>s. False) 9 owner_u1 (exportLeads [comma_tag_lead]) example_store =
      (ImportOk 1 [?row], st')"
    unfolding importLeads_def v by (simp add: exportLeads_def)
  moreover have "?row ''tags'' = JArr [''sea view'', ''garden'']"
    unfolding comma_tag_output by (simp add: with_defaults_def insert_values_def get_def js_or_def)
  moreover have "comma_tag_lead ''tags'' = JArr [''sea view, garden'']"
    by (simp add: comma_tag_lead_def)
  ultimately show ?thesis by auto
qed

text \<open>
  A lead without a bedroom count, which the table allows for a plot, does not come back
  either: its \<open>bhk\<close> cell is empty, and the import schema takes the empty text for a
  value outside the enumeration.
\<close>

lemma processed_example_lead:
  "processedRow (export_record (export_select example_lead)) =
     [(''fullName'', JStr ''Amit Singh''), (''email'', JStr []), (''phone'', JStr ''9876543212''),
      (''city'', JStr ''Zirakpur''), (''propertyType'', JStr ''Plot''), (''bhk'', JStr []),
      (''purpose'', JStr ''Buy''), (''budgetMin'', JNum 2000000), (''budgetMax'', JNum 3000000),
      (''timeline'', JStr ''3-6m''), (''source'', JStr ''Call''),
      (''status'', JStr ''New''), (''notes'', JStr ''plot''), (''tags'', JStr ''investment'')]"
proof -
  have "parseInt (decimal 2000000) = JNum 2000000" "parseInt (decimal 3000000) = JNum 3000000"
    using parseInt_decimal[of 2000000] parseInt_decimal[of 3000000] by simp_all
  then show ?thesis
    unfolding processed_export
    by (simp add: example_lead_def array_to_string_def decimal_nonempty)
qed

lemma plot_lead_not_reimported:
  "csvRowSchema (\<lambda>s. False) (processedRow (export_record (export_select example_lead))) =
     [Issue invalid_value [''bhk''] None] \<and>
   importLeads (\<lambda>s. False) 9 owner_u1 (exportLeads [example_lead]) example_store =
     (ImportRejected [(1, None)] 0 1, example_store)"
proof -
  have issues: "csvRowSchema (\<lambda>s. False)
      (processedRow (export_record (export_select example_lead))) =
      [Issue invalid_value [''bhk''] None]"
    unfolding processed_example_lead by (simp add: csv_eval_defs)
  then have "validate_rows (\<lambda>s. False) (exportLeads [example_lead]) 0 ([], []) =
      ([], [(1, None)])"
    by (simp add: exportLeads_def ZodError_errors_def)
  then have "importLeads (\<lambda>s. False) 9 owner_u1 (exportLeads [example_lead]) example_store =
      (ImportRejected [(1, None)] 0 1, example_store)"
    unfolding importLeads_def by (simp add: exportLeads_def)
  with issues show ?thesis by blast
qed

end
